theory Spec2Isabelle
  imports Complex_Main
begin

section \<open>Python values, exceptions and library conversions\<close>

text \<open>
  The gateway receives decoded JSON and turns it into dataclass instances. A decoded
  JSON document is a \<open>json\<close> value: \<open>None\<close>, a bool, an int, a float (a finite
  float is a rational number), a str, a list, or a dict. A dict is kept as the list of
  its items in iteration order; a Python dict never holds a key twice.
\<close>

datatype json =
    JNone
  | JBool bool
  | JInt int
  | JFloat rat
  | JStr string
  | JList "json list"
  | JDict "(string \<times> json) list"

text \<open>
  Exceptions are values. Every exception the repository raises itself is a
  \<open>ValueError\<close>; its message is kept as the format template with its arguments:
  \<^item> \<open>Auth_not_configured_env\<close>: the message of \<open>HttpClient.post\<close> when no
    authentication provider is set (it asks for ZAIF_API_KEY and ZAIF_API_SECRET in the
    environment);
  \<^item> \<open>Auth_not_configured_dotenv\<close>: the message of the tool handlers when no
    authentication provider is set (it asks for the key and the secret in the .env file);
  \<^item> \<open>Unsupported_pair p\<close>: the message of \<open>get_trade_executions\<close> for a currency
    pair \<open>p\<close> outside the allow-list;
  \<^item> \<open>API_error v\<close>: the text \<open>API error: \<close> followed by \<open>str(v)\<close>;
  \<^item> \<open>HTTP_error c\<close>: the text \<open>HTTP error: \<close> followed by the status code;
  \<^item> \<open>Connection_error\<close>, \<open>Timeout_error\<close>: the two fixed texts of the transport;
  \<^item> \<open>Request_error s\<close>: the text \<open>Request error: \<close> followed by \<open>s\<close>;
  \<^item> \<open>Unexpected_error e\<close>: the text \<open>Unexpected error: \<close> followed by \<open>str(e)\<close>;
  \<^item> \<open>Invalid_literal s\<close>: the message of the built-in \<open>int\<close> for a string it cannot read;
  \<^item> \<open>Library_message s\<close>: any other message of a library.
  \<open>InvalidOperation\<close> is the exception of the decimal module; it is an
  \<open>ArithmeticError\<close>, not a \<open>ValueError\<close>.
\<close>

datatype pyexn =
    ValueError errmsg
  | TypeError
  | KeyError string
  | AttributeError
  | IndexError
  | InvalidOperation
  | OverflowError
  | OSError
and errmsg =
    Auth_not_configured_env
  | Auth_not_configured_dotenv
  | Unsupported_pair string
  | API_error json
  | HTTP_error int
  | Connection_error
  | Timeout_error
  | Request_error string
  | Unexpected_error pyexn
  | Invalid_literal string
  | Library_message string

text \<open>Sequencing of computations that may raise: the first exception wins.\<close>

definition and_then :: "'e + 'a \<Rightarrow> ('a \<Rightarrow> 'e + 'b) \<Rightarrow> 'e + 'b" where
  "and_then m f = (case m of Inl e \<Rightarrow> Inl e | Inr v \<Rightarrow> f v)"

subsection \<open>Digits, \<open>str(int)\<close> and \<open>int(str)\<close>\<close>

definition is_digit :: "char \<Rightarrow> bool" where
  "is_digit c = (48 \<le> (of_char c :: nat) \<and> (of_char c :: nat) \<le> 57)"

definition digit_val :: "char \<Rightarrow> nat" where
  "digit_val c = of_char c - 48"

definition digit_char :: "nat \<Rightarrow> char" where
  "digit_char d = char_of (48 + d)"

text \<open>What \<open>str.isspace\<close> accepts among the ASCII characters.\<close>

definition is_space :: "char \<Rightarrow> bool" where
  "is_space c = (let n = (of_char c :: nat) in (9 \<le> n \<and> n \<le> 13) \<or> (28 \<le> n \<and> n \<le> 32))"

definition strip :: "string \<Rightarrow> string" where
  "strip s = rev (dropWhile is_space (rev (dropWhile is_space s)))"

text \<open>
  The built-in \<open>int\<close> drops, among the ASCII characters, only the whitespace of C
  around its argument.
\<close>

definition is_c_space :: "char \<Rightarrow> bool" where
  "is_c_space c = (let n = (of_char c :: nat) in (9 \<le> n \<and> n \<le> 13) \<or> n = 32)"

definition strip_c :: "string \<Rightarrow> string" where
  "strip_c s = rev (dropWhile is_c_space (rev (dropWhile is_c_space s)))"

fun str_of_nat :: "nat \<Rightarrow> string" where
  "str_of_nat n =
     (if n < 10 then [digit_char n] else str_of_nat (n div 10) @ [digit_char (n mod 10)])"

text \<open>\<open>str(i)\<close> for an int (the interpreter's limit on the number of digits is not modelled).\<close>

definition str_of_int :: "int \<Rightarrow> string" where
  "str_of_int i = (if i < 0 then CHR ''-'' # str_of_nat (nat (- i)) else str_of_nat (nat i))"

definition nat_of_digits :: "string \<Rightarrow> nat" where
  "nat_of_digits s = foldl (\<lambda>a c. 10 * a + digit_val c) 0 s"

text \<open>\<open>str.isdigit\<close> on an ASCII string: not empty, and digits only.\<close>

definition isdigit :: "string \<Rightarrow> bool" where
  "isdigit s = (s \<noteq> [] \<and> list_all is_digit s)"

text \<open>
  The digits of an integer literal: digits, with single underscores allowed between
  two digits.
\<close>

fun int_body_ok :: "string \<Rightarrow> bool" where
  "int_body_ok [] = False"
| "int_body_ok [c] = is_digit c"
| "int_body_ok (c # d # r) =
     (if is_digit c then (if d = CHR ''_'' then int_body_ok r else int_body_ok (d # r))
      else False)"

text \<open>
  \<open>int(s)\<close> for a str: surrounding whitespace is dropped, a sign may come first.
  (The interpreter's limit on the number of digits is not modelled.)
\<close>

definition int_of_str :: "string \<Rightarrow> pyexn + int" where
  "int_of_str s =
     (let t = strip_c s;
          neg = (case t of c # _ \<Rightarrow> c = CHR ''-'' | [] \<Rightarrow> False);
          body = (case t of c # r \<Rightarrow> if c = CHR ''-'' \<or> c = CHR ''+'' then r else t | [] \<Rightarrow> t)
      in if int_body_ok body
         then (let n = int (nat_of_digits (filter (\<lambda>c. c \<noteq> CHR ''_'') body))
               in Inr (if neg then - n else n))
         else Inl (ValueError (Invalid_literal s)))"

subsection \<open>Floats\<close>

text \<open>
  A finite float is the rational number it stands for. \<open>binary64 x\<close> is the double
  nearest to \<open>x\<close>, a tie going to the even significand: the significand has 53 bits,
  and below \<open>2^-1022\<close> the spacing stays \<open>2^-1074\<close>. Overflow is not modelled.
  \<open>floor_log2 x\<close> is, for \<open>x > 0\<close>, the exponent \<open>e\<close> with \<open>2^e \<le> x < 2^(e+1)\<close>.
\<close>

fun bitlen_nat :: "nat \<Rightarrow> nat" where
  "bitlen_nat n = (if n = 0 then 0 else Suc (bitlen_nat (n div 2)))"

definition floor_log2 :: "rat \<Rightarrow> int" where
  "floor_log2 x =
     (if 1 \<le> x then int (bitlen_nat (nat \<lfloor>x\<rfloor>)) - 1
      else - int (bitlen_nat (nat \<lceil>1 / x\<rceil> - 1)))"

definition pow2 :: "int \<Rightarrow> rat" where
  "pow2 e = (if 0 \<le> e then 2 ^ nat e else 1 / 2 ^ nat (- e))"

definition round_half_even :: "rat \<Rightarrow> int" where
  "round_half_even q =
     (let f = \<lfloor>q\<rfloor>; r = q - of_int f
      in if r < 1 / 2 then f else if 1 / 2 < r then f + 1 else if even f then f else f + 1)"

definition binary64 :: "rat \<Rightarrow> rat" where
  "binary64 x =
     (if x = 0 then 0
      else (let e = max (floor_log2 \<bar>x\<bar>) (- 1022);
                u = pow2 (e - 52);
                m = round_half_even (\<bar>x\<bar> / u)
            in (if x < 0 then - 1 else 1) * of_int m * u))"

text \<open>
  The arithmetic the repository does on floats: \<open>a / b\<close> for two ints (correctly
  rounded; \<open>b\<close> is a constant that is not 0), \<open>x * n\<close> for a float and an int, and
  \<open>int(x)\<close>, which truncates towards zero.
\<close>

definition int_truediv :: "int \<Rightarrow> int \<Rightarrow> rat" where
  "int_truediv a b = binary64 (of_int a / of_int b)"

definition float_mul_int :: "rat \<Rightarrow> int \<Rightarrow> rat" where
  "float_mul_int x n = binary64 (x * of_int n)"

definition int_of_float :: "rat \<Rightarrow> int" where
  "int_of_float x = (if x < 0 then - \<lfloor>- x\<rfloor> else \<lfloor>x\<rfloor>)"

text \<open>\<open>int(v)\<close> for a decoded JSON value.\<close>

definition py_int :: "json \<Rightarrow> pyexn + int" where
  "py_int v =
     (case v of
        JInt i \<Rightarrow> Inr i
      | JBool b \<Rightarrow> Inr (if b then 1 else 0)
      | JFloat r \<Rightarrow> Inr (int_of_float r)
      | JStr s \<Rightarrow> int_of_str s
      | JNone \<Rightarrow> Inl TypeError
      | JList _ \<Rightarrow> Inl TypeError
      | JDict _ \<Rightarrow> Inl TypeError)"

subsection \<open>The decimal module\<close>

text \<open>
  A finite \<open>Decimal\<close> is a sign, a coefficient and an exponent; its value is
  \<open>(-1)^sign * coefficient * 10^exponent\<close>. The module is Python's, not the
  repository's; it is modelled here on the finite decimals. The special values
  (Infinity, NaN), which the constructor also reads from a string, are outside the model:
  \<open>Decimal_of_str\<close> answers their spellings with \<open>InvalidOperation\<close>.
\<close>

datatype decimal = Decimal (dsign: bool) (dcoeff: nat) (dexp: int)

definition decimal_value :: "decimal \<Rightarrow> rat" where
  "decimal_value d =
     (if dsign d then - 1 else 1) * of_nat (dcoeff d) *
     (if 0 \<le> dexp d then 10 ^ nat (dexp d) else 1 / 10 ^ nat (- dexp d))"

text \<open>The comparison \<open><\<close> of two decimals compares their values.\<close>

definition decimal_less :: "decimal \<Rightarrow> decimal \<Rightarrow> bool" where
  "decimal_less a b = (decimal_value a < decimal_value b)"

text \<open>The exponent part of a numeric string: nothing, or E, an optional sign and digits.\<close>

definition parse_exponent :: "string \<Rightarrow> int option" where
  "parse_exponent s =
     (case s of
        [] \<Rightarrow> Some 0
      | c # r \<Rightarrow>
          if c = CHR ''E'' \<or> c = CHR ''e'' then
            (let neg = (case r of x # _ \<Rightarrow> x = CHR ''-'' | [] \<Rightarrow> False);
                 ds = (case r of x # r' \<Rightarrow> if x = CHR ''-'' \<or> x = CHR ''+'' then r' else r | [] \<Rightarrow> r)
             in if isdigit ds
                then Some (if neg then - int (nat_of_digits ds) else int (nat_of_digits ds))
                else None)
          else None)"

text \<open>
  \<open>Decimal(s)\<close> for a str: whitespace around the string and every underscore are
  dropped; then a sign, digits with an optional fraction (at least one digit in all),
  and an optional exponent. Anything else raises \<open>InvalidOperation\<close>.
\<close>

definition Decimal_of_str :: "string \<Rightarrow> pyexn + decimal" where
  "Decimal_of_str s =
     (let t = filter (\<lambda>c. c \<noteq> CHR ''_'') (strip s);
          neg = (case t of c # _ \<Rightarrow> c = CHR ''-'' | [] \<Rightarrow> False);
          body = (case t of c # r \<Rightarrow> if c = CHR ''-'' \<or> c = CHR ''+'' then r else t | [] \<Rightarrow> t);
          intpart = takeWhile is_digit body;
          rest = dropWhile is_digit body;
          dot = (case rest of c # _ \<Rightarrow> c = CHR ''.'' | [] \<Rightarrow> False);
          fracpart = (if dot then takeWhile is_digit (tl rest) else []);
          tail = (if dot then dropWhile is_digit (tl rest) else rest)
      in if intpart = [] \<and> fracpart = [] then Inl InvalidOperation
         else (case parse_exponent tail of
                 None \<Rightarrow> Inl InvalidOperation
               | Some e \<Rightarrow>
                   Inr (Decimal neg (nat_of_digits (intpart @ fracpart))
                          (e - int (length fracpart)))))"

text \<open>
  \<open>str(d)\<close>: the scientific string of the decimal module. No exponent is printed when
  the exponent is at most 0 and more than -6 digits stand left of the point.
\<close>

definition Decimal_str :: "decimal \<Rightarrow> string" where
  "Decimal_str d =
     (let ds = str_of_nat (dcoeff d);
          leftdigits = dexp d + int (length ds);
          dotplace = (if dexp d \<le> 0 \<and> leftdigits > - 6 then leftdigits else 1);
          intpart = (if dotplace \<le> 0 then ''0''
                     else if dotplace \<ge> int (length ds)
                       then ds @ replicate (nat (dotplace - int (length ds))) (CHR ''0'')
                     else take (nat dotplace) ds);
          fracpart = (if dotplace \<le> 0 then CHR ''.'' # replicate (nat (- dotplace)) (CHR ''0'') @ ds
                      else if dotplace \<ge> int (length ds) then []
                      else CHR ''.'' # drop (nat dotplace) ds);
          ex = (if leftdigits = dotplace then []
                else CHR ''E'' # (if leftdigits - dotplace < 0 then CHR ''-'' else CHR ''+'')
                       # str_of_nat (nat \<bar>leftdigits - dotplace\<bar>))
      in (if dsign d then ''-'' else []) @ intpart @ fracpart @ ex)"

subsection \<open>Library functions taken as parameters\<close>

text \<open>
  Functions of Python's libraries that the repository calls and that are not modelled
  here are fields of \<open>pylib\<close>; every definition that calls one takes the record.
  \<^item> \<open>float_repr x\<close> is \<open>str(x)\<close> for a float, \<open>container_repr v\<close> is \<open>str(v)\<close> for a
    list or a dict, \<open>float_of_Decimal d\<close> is \<open>float(d)\<close>;
  \<^item> \<open>fromtimestamp_isoformat n\<close> is \<open>datetime.fromtimestamp(n).isoformat()\<close> for an
    int \<open>n\<close>, and \<open>fromtimestamp_float_isoformat x\<close> is the same for a float \<open>x\<close>;
  \<^item> \<open>fromisoformat_timestamp s\<close> is the float \<open>datetime.fromisoformat(s).timestamp()\<close>,
    and \<open>fromisoformat_end_of_day_timestamp s\<close> is the float
    \<open>datetime.fromisoformat(s).replace(hour=23, minute=59, second=59).timestamp()\<close>;
  \<^item> \<open>urlencode\<close> is \<open>urllib.parse.urlencode\<close> on a dict, and
    \<open>hmac_sha512_hexdigest key msg\<close> is the hexadecimal HMAC-SHA512 digest.
\<close>

record pylib =
  float_repr :: "rat \<Rightarrow> string"
  container_repr :: "json \<Rightarrow> string"
  float_of_Decimal :: "decimal \<Rightarrow> rat"
  fromtimestamp_isoformat :: "int \<Rightarrow> pyexn + string"
  fromtimestamp_float_isoformat :: "rat \<Rightarrow> pyexn + string"
  fromisoformat_timestamp :: "string \<Rightarrow> pyexn + rat"
  fromisoformat_end_of_day_timestamp :: "string \<Rightarrow> pyexn + rat"
  urlencode :: "(string \<times> json) list \<Rightarrow> string"
  hmac_sha512_hexdigest :: "string \<Rightarrow> string \<Rightarrow> string"

subsection \<open>Operations on decoded JSON\<close>

text \<open>\<open>str(v)\<close>, as \<open>str\<close> and the f-strings compute it.\<close>

definition py_str :: "pylib \<Rightarrow> json \<Rightarrow> string" where
  "py_str L v =
     (case v of
        JStr s \<Rightarrow> s
      | JInt i \<Rightarrow> str_of_int i
      | JBool b \<Rightarrow> (if b then ''True'' else ''False'')
      | JNone \<Rightarrow> ''None''
      | JFloat r \<Rightarrow> float_repr L r
      | JList xs \<Rightarrow> container_repr L (JList xs)
      | JDict d \<Rightarrow> container_repr L (JDict d))"

text \<open>\<open>Decimal(str(v))\<close>, the conversion of every monetary field.\<close>

definition Decimal_of :: "pylib \<Rightarrow> json \<Rightarrow> pyexn + decimal" where
  "Decimal_of L v = Decimal_of_str (py_str L v)"

text \<open>\<open>d.get(k, dflt)\<close> on a dict, and \<open>d[k] = v\<close>: an existing key keeps its place.\<close>

definition dict_get :: "(string \<times> json) list \<Rightarrow> string \<Rightarrow> json \<Rightarrow> json" where
  "dict_get d k dflt = (case map_of d k of None \<Rightarrow> dflt | Some v \<Rightarrow> v)"

fun dict_set :: "('k \<times> 'v) list \<Rightarrow> 'k \<Rightarrow> 'v \<Rightarrow> ('k \<times> 'v) list" where
  "dict_set [] k v = [(k, v)]"
| "dict_set ((k', v') # d) k v =
     (if k' = k then (k, v) # d else (k', v') # dict_set d k v)"

text \<open>
  The same on a value that may not be a dict: \<open>data.get(k, dflt)\<close> and
  \<open>data.items()\<close> raise \<open>AttributeError\<close> on anything else, \<open>data[k]\<close> raises
  \<open>KeyError\<close> for a missing key and \<open>TypeError\<close> on anything but a dict.
\<close>

definition py_get :: "json \<Rightarrow> string \<Rightarrow> json \<Rightarrow> pyexn + json" where
  "py_get data k dflt =
     (case data of JDict d \<Rightarrow> Inr (dict_get d k dflt) | _ \<Rightarrow> Inl AttributeError)"

definition py_items :: "json \<Rightarrow> pyexn + (string \<times> json) list" where
  "py_items data = (case data of JDict d \<Rightarrow> Inr d | _ \<Rightarrow> Inl AttributeError)"

definition py_getitem :: "json \<Rightarrow> string \<Rightarrow> pyexn + json" where
  "py_getitem data k =
     (case data of
        JDict d \<Rightarrow> (case map_of d k of None \<Rightarrow> Inl (KeyError k) | Some v \<Rightarrow> Inr v)
      | _ \<Rightarrow> Inl TypeError)"

text \<open>\<open>item[i]\<close> for an index \<open>i \<ge> 0\<close>: a dict of JSON has no int key.\<close>

definition py_index :: "json \<Rightarrow> nat \<Rightarrow> pyexn + json" where
  "py_index item i =
     (case item of
        JList xs \<Rightarrow> (if i < length xs then Inr (xs ! i) else Inl IndexError)
      | JStr s \<Rightarrow> (if i < length s then Inr (JStr [s ! i]) else Inl IndexError)
      | JDict d \<Rightarrow> Inl (KeyError (str_of_nat i))
      | _ \<Rightarrow> Inl TypeError)"

text \<open>What a \<open>for\<close> loop over a value visits.\<close>

definition py_iter :: "json \<Rightarrow> pyexn + json list" where
  "py_iter v =
     (case v of
        JList xs \<Rightarrow> Inr xs
      | JDict d \<Rightarrow> Inr (map (\<lambda>kv. JStr (fst kv)) d)
      | JStr s \<Rightarrow> Inr (map (\<lambda>c. JStr [c]) s)
      | _ \<Rightarrow> Inl TypeError)"

text \<open>\<open>v == n\<close> for an int \<open>n\<close>: a bool and a float compare by value.\<close>

definition py_eq_int :: "json \<Rightarrow> int \<Rightarrow> bool" where
  "py_eq_int v n =
     (case v of
        JInt i \<Rightarrow> i = n
      | JBool b \<Rightarrow> (if b then 1 else 0) = n
      | JFloat r \<Rightarrow> r = of_int n
      | _ \<Rightarrow> False)"

text \<open>The dict comprehension \<open>{k: Decimal(str(v)) for k, v in d.items()}\<close>.\<close>

fun Decimal_dict :: "pylib \<Rightarrow> (string \<times> json) list \<Rightarrow> pyexn + (string \<times> decimal) list" where
  "Decimal_dict L [] = Inr []"
| "Decimal_dict L ((k, v) # r) =
     and_then (Decimal_of L v) (\<lambda>d.
     and_then (Decimal_dict L r) (\<lambda>ds. Inr ((k, d) # ds)))"

text \<open>The dict comprehension \<open>{k: str(v) for k, v in balances.items()}\<close>.\<close>

definition str_dict :: "(string \<times> decimal) list \<Rightarrow> json" where
  "str_dict balances = JDict (map (\<lambda>kv. (fst kv, JStr (Decimal_str (snd kv)))) balances)"

text \<open>\<open>Decimal(str(data[k]))\<close> and \<open>Decimal(str(data.get(k, dflt)))\<close>.\<close>

definition Decimal_item :: "pylib \<Rightarrow> json \<Rightarrow> string \<Rightarrow> pyexn + decimal" where
  "Decimal_item L data k = and_then (py_getitem data k) (Decimal_of L)"

definition Decimal_get :: "pylib \<Rightarrow> json \<Rightarrow> string \<Rightarrow> json \<Rightarrow> pyexn + decimal" where
  "Decimal_get L data k dflt = and_then (py_get data k dflt) (Decimal_of L)"

section \<open>models/market.py\<close>

record Ticker =
  last_price :: decimal
  high_price :: decimal
  low_price :: decimal
  ask_price :: decimal
  bid_price :: decimal
  volume :: decimal

definition Ticker_from_dict :: "pylib \<Rightarrow> json \<Rightarrow> pyexn + Ticker" where
  "Ticker_from_dict L data =
     and_then (Decimal_item L data ''last'') (\<lambda>last.
     and_then (Decimal_item L data ''high'') (\<lambda>high.
     and_then (Decimal_item L data ''low'') (\<lambda>low.
     and_then (Decimal_item L data ''ask'') (\<lambda>ask.
     and_then (Decimal_item L data ''bid'') (\<lambda>bid.
     and_then (Decimal_item L data ''volume'') (\<lambda>vol.
       Inr \<lparr>Ticker.last_price = last, Ticker.high_price = high, Ticker.low_price = low,
            Ticker.ask_price = ask, Ticker.bid_price = bid, Ticker.volume = vol\<rparr>))))))"

definition Ticker_to_dict :: "Ticker \<Rightarrow> json" where
  "Ticker_to_dict t =
     JDict [(''last'', JStr (Decimal_str (Ticker.last_price t))),
            (''high'', JStr (Decimal_str (Ticker.high_price t))),
            (''low'', JStr (Decimal_str (Ticker.low_price t))),
            (''ask'', JStr (Decimal_str (Ticker.ask_price t))),
            (''bid'', JStr (Decimal_str (Ticker.bid_price t))),
            (''volume'', JStr (Decimal_str (Ticker.volume t)))]"

record OrderBookItem =
  price :: decimal
  quantity :: decimal

record OrderBook =
  asks :: "OrderBookItem list"
  bids :: "OrderBookItem list"

definition OrderBookItem_of :: "pylib \<Rightarrow> json \<Rightarrow> pyexn + OrderBookItem" where
  "OrderBookItem_of L item =
     and_then (and_then (py_index item 0) (Decimal_of L)) (\<lambda>p.
     and_then (and_then (py_index item 1) (Decimal_of L)) (\<lambda>q.
       Inr \<lparr>OrderBookItem.price = p, OrderBookItem.quantity = q\<rparr>))"

fun OrderBookItems :: "pylib \<Rightarrow> json list \<Rightarrow> pyexn + OrderBookItem list" where
  "OrderBookItems L [] = Inr []"
| "OrderBookItems L (item # r) =
     and_then (OrderBookItem_of L item) (\<lambda>x.
     and_then (OrderBookItems L r) (\<lambda>xs. Inr (x # xs)))"

definition OrderBook_from_dict :: "pylib \<Rightarrow> json \<Rightarrow> pyexn + OrderBook" where
  "OrderBook_from_dict L data =
     and_then (and_then (and_then (py_get data ''asks'' (JList [])) py_iter) (OrderBookItems L)) (\<lambda>a.
     and_then (and_then (and_then (py_get data ''bids'' (JList [])) py_iter) (OrderBookItems L)) (\<lambda>b.
       Inr \<lparr>OrderBook.asks = a, OrderBook.bids = b\<rparr>))"

definition OrderBookItem_to_list :: "OrderBookItem \<Rightarrow> json" where
  "OrderBookItem_to_list item =
     JList [JStr (Decimal_str (OrderBookItem.price item)),
            JStr (Decimal_str (OrderBookItem.quantity item))]"

definition OrderBook_to_dict :: "OrderBook \<Rightarrow> json" where
  "OrderBook_to_dict b =
     JDict [(''asks'', JList (map OrderBookItem_to_list (OrderBook.asks b))),
            (''bids'', JList (map OrderBookItem_to_list (OrderBook.bids b)))]"

text \<open>
  \<open>CurrencyPair\<close>: the fields \<open>currency_pair\<close> and the two names are taken from the
  response as they are, whatever their type.
\<close>

record CurrencyPair =
  currency_pair :: json
  min_quantity :: decimal
  quantity_step :: decimal
  min_price :: decimal
  price_step :: decimal
  price_precision :: int
  display_name :: string

definition CurrencyPair_from_dict :: "pylib \<Rightarrow> json \<Rightarrow> pyexn + CurrencyPair" where
  "CurrencyPair_from_dict L data =
     and_then (py_getitem data ''item_japanese'') (\<lambda>base_currency_name.
     and_then (py_getitem data ''aux_japanese'') (\<lambda>quote_currency_name.
     and_then (py_getitem data ''currency_pair'') (\<lambda>cp.
     and_then (Decimal_item L data ''item_unit_min'') (\<lambda>minq.
     and_then (Decimal_item L data ''item_unit_step'') (\<lambda>qstep.
     and_then (Decimal_item L data ''aux_unit_min'') (\<lambda>minp.
     and_then (Decimal_item L data ''aux_unit_step'') (\<lambda>pstep.
     and_then (and_then (py_getitem data ''aux_unit_point'') py_int) (\<lambda>prec.
       Inr \<lparr>CurrencyPair.currency_pair = cp, CurrencyPair.min_quantity = minq,
            CurrencyPair.quantity_step = qstep, CurrencyPair.min_price = minp,
            CurrencyPair.price_step = pstep, CurrencyPair.price_precision = prec,
            CurrencyPair.display_name =
              py_str L base_currency_name @ ''/'' @ py_str L quote_currency_name\<rparr>))))))))"

definition CurrencyPair_to_dict :: "CurrencyPair \<Rightarrow> json" where
  "CurrencyPair_to_dict c =
     JDict [(''currency_pair'', CurrencyPair.currency_pair c),
            (''min_quantity'', JStr (Decimal_str (CurrencyPair.min_quantity c))),
            (''quantity_step'', JStr (Decimal_str (CurrencyPair.quantity_step c))),
            (''min_price'', JStr (Decimal_str (CurrencyPair.min_price c))),
            (''price_step'', JStr (Decimal_str (CurrencyPair.price_step c))),
            (''price_precision'', JInt (CurrencyPair.price_precision c)),
            (''display_name'', JStr (CurrencyPair.display_name c))]"

section \<open>models/account.py\<close>

text \<open>\<open>permissions\<close> is whatever \<open>data.get('rights')\<close> returns; \<open>JNone\<close> is \<open>None\<close>.\<close>

record AccountBalance =
  balances :: "(string \<times> decimal) list"
  permissions :: json

definition AccountBalance_from_dict :: "pylib \<Rightarrow> json \<Rightarrow> pyexn + AccountBalance" where
  "AccountBalance_from_dict L data =
     and_then (and_then (and_then (py_get data ''funds'' (JDict [])) py_items) (Decimal_dict L)) (\<lambda>bs.
     and_then (py_get data ''rights'' JNone) (\<lambda>rights.
       Inr \<lparr>AccountBalance.balances = bs, AccountBalance.permissions = rights\<rparr>))"

definition AccountBalance_to_dict :: "AccountBalance \<Rightarrow> json" where
  "AccountBalance_to_dict a =
     JDict ((''funds'', str_dict (AccountBalance.balances a)) #
            (if AccountBalance.permissions a \<noteq> JNone
             then [(''rights'', AccountBalance.permissions a)] else []))"

record UserProfile =
  ranking_id :: json
  icon_path :: json
  area_id :: int
  nickname :: json

definition UserProfile_from_dict :: "json \<Rightarrow> pyexn + UserProfile" where
  "UserProfile_from_dict data =
     and_then (py_get data ''ranking_nickname'' (JStr [])) (\<lambda>nick.
     and_then (py_get data ''icon_path'' (JStr [])) (\<lambda>icon.
     and_then (py_get data ''ranking_id'' (JStr [])) (\<lambda>rid.
     and_then (and_then (py_get data ''area_id'' (JInt 0)) py_int) (\<lambda>area.
       Inr \<lparr>UserProfile.ranking_id = rid,
            UserProfile.icon_path = (if icon = JNone then JStr [] else icon),
            UserProfile.area_id = area, UserProfile.nickname = nick\<rparr>))))"

text \<open>
  The keyed collections. The body of the \<open>try\<close> of one entry is a function of its
  own; the handler \<open>except (ValueError, TypeError, KeyError)\<close> catches what
  \<open>item_handler_catches\<close> accepts and prints a warning, which is kept as the pair of
  the entry's key and the exception. A loop returns its result, or the exception that
  ended it, beside the warnings printed until then.
\<close>

definition item_handler_catches :: "pyexn \<Rightarrow> bool" where
  "item_handler_catches e =
     (case e of ValueError _ \<Rightarrow> True | TypeError \<Rightarrow> True | KeyError _ \<Rightarrow> True | _ \<Rightarrow> False)"

type_synonym warning = "string \<times> pyexn"

text \<open>
  The timestamp of a deposit or a withdrawal: \<open>int(timestamp)\<close> unless it is \<open>None\<close>
  or the empty string, then 0.
\<close>

definition history_timestamp :: "(string \<times> json) list \<Rightarrow> pyexn + int" where
  "history_timestamp item =
     (let timestamp = dict_get item ''timestamp'' JNone
      in if timestamp \<noteq> JNone \<and> timestamp \<noteq> JStr [] then py_int timestamp else Inr 0)"

record DepositHistoryItem =
  id :: int
  timestamp :: int
  address :: json
  amount :: decimal
  txid :: json

record DepositRecords =
  items :: "DepositHistoryItem list"

definition parse_deposit_item :: "pylib \<Rightarrow> string \<Rightarrow> (string \<times> json) list \<Rightarrow> pyexn + DepositHistoryItem" where
  "parse_deposit_item L deposit_id item =
     and_then (int_of_str deposit_id) (\<lambda>deposit_id_int.
     and_then (history_timestamp item) (\<lambda>ts.
     and_then (Decimal_of L (dict_get item ''amount'' (JStr ''0''))) (\<lambda>amt.
       Inr \<lparr>DepositHistoryItem.id = deposit_id_int, DepositHistoryItem.timestamp = ts,
            DepositHistoryItem.address = dict_get item ''address'' (JStr []),
            DepositHistoryItem.amount = amt,
            DepositHistoryItem.txid = dict_get item ''txid'' (JStr [])\<rparr>)))"

fun deposit_loop :: "pylib \<Rightarrow> (string \<times> json) list \<Rightarrow> (pyexn + DepositHistoryItem list) \<times> warning list" where
  "deposit_loop L [] = (Inr [], [])"
| "deposit_loop L ((deposit_id, item) # rest) =
     (case item of
        JDict d \<Rightarrow>
          (case parse_deposit_item L deposit_id d of
             Inr x \<Rightarrow>
               (case deposit_loop L rest of
                  (Inr xs, ws) \<Rightarrow> (Inr (x # xs), ws)
                | (Inl e, ws) \<Rightarrow> (Inl e, ws))
           | Inl e \<Rightarrow>
               if item_handler_catches e
               then (case deposit_loop L rest of (r, ws) \<Rightarrow> (r, (deposit_id, e) # ws))
               else (Inl e, []))
      | _ \<Rightarrow> deposit_loop L rest)"

definition DepositRecords_from_dict :: "pylib \<Rightarrow> json \<Rightarrow> (pyexn + DepositRecords) \<times> warning list" where
  "DepositRecords_from_dict L data =
     (case py_items data of
        Inl e \<Rightarrow> (Inl e, [])
      | Inr kvs \<Rightarrow>
          (case deposit_loop L kvs of
             (Inr xs, ws) \<Rightarrow> (Inr \<lparr>DepositRecords.items = xs\<rparr>, ws)
           | (Inl e, ws) \<Rightarrow> (Inl e, ws)))"

definition DepositHistoryItem_to_dict :: "DepositHistoryItem \<Rightarrow> json" where
  "DepositHistoryItem_to_dict item =
     JDict [(''id'', JInt (DepositHistoryItem.id item)),
            (''timestamp'', JInt (DepositHistoryItem.timestamp item)),
            (''address'', DepositHistoryItem.address item),
            (''amount'', JStr (Decimal_str (DepositHistoryItem.amount item))),
            (''txid'', DepositHistoryItem.txid item)]"

definition DepositRecords_to_dict :: "DepositRecords \<Rightarrow> json" where
  "DepositRecords_to_dict r = JList (map DepositHistoryItem_to_dict (DepositRecords.items r))"

record WithdrawalHistoryItem =
  id :: int
  timestamp :: int
  address :: json
  amount :: decimal
  txid :: json
  fee :: decimal
  status :: json

record WithdrawalRecords =
  items :: "WithdrawalHistoryItem list"

definition parse_withdraw_item :: "pylib \<Rightarrow> string \<Rightarrow> (string \<times> json) list \<Rightarrow> pyexn + WithdrawalHistoryItem" where
  "parse_withdraw_item L withdraw_id item =
     and_then (int_of_str withdraw_id) (\<lambda>withdraw_id_int.
     and_then (history_timestamp item) (\<lambda>ts.
     and_then (Decimal_of L (dict_get item ''amount'' (JStr ''0''))) (\<lambda>amt.
     and_then (Decimal_of L (dict_get item ''fee'' (JStr ''0''))) (\<lambda>fee.
       Inr \<lparr>WithdrawalHistoryItem.id = withdraw_id_int, WithdrawalHistoryItem.timestamp = ts,
            WithdrawalHistoryItem.address = dict_get item ''address'' (JStr []),
            WithdrawalHistoryItem.amount = amt,
            WithdrawalHistoryItem.txid = dict_get item ''txid'' (JStr []),
            WithdrawalHistoryItem.fee = fee,
            WithdrawalHistoryItem.status = dict_get item ''status'' (JStr [])\<rparr>))))"

fun withdraw_loop :: "pylib \<Rightarrow> (string \<times> json) list \<Rightarrow> (pyexn + WithdrawalHistoryItem list) \<times> warning list" where
  "withdraw_loop L [] = (Inr [], [])"
| "withdraw_loop L ((withdraw_id, item) # rest) =
     (case item of
        JDict d \<Rightarrow>
          (case parse_withdraw_item L withdraw_id d of
             Inr x \<Rightarrow>
               (case withdraw_loop L rest of
                  (Inr xs, ws) \<Rightarrow> (Inr (x # xs), ws)
                | (Inl e, ws) \<Rightarrow> (Inl e, ws))
           | Inl e \<Rightarrow>
               if item_handler_catches e
               then (case withdraw_loop L rest of (r, ws) \<Rightarrow> (r, (withdraw_id, e) # ws))
               else (Inl e, []))
      | _ \<Rightarrow> withdraw_loop L rest)"

definition WithdrawalRecords_from_dict :: "pylib \<Rightarrow> json \<Rightarrow> (pyexn + WithdrawalRecords) \<times> warning list" where
  "WithdrawalRecords_from_dict L data =
     (case py_items data of
        Inl e \<Rightarrow> (Inl e, [])
      | Inr kvs \<Rightarrow>
          (case withdraw_loop L kvs of
             (Inr xs, ws) \<Rightarrow> (Inr \<lparr>WithdrawalRecords.items = xs\<rparr>, ws)
           | (Inl e, ws) \<Rightarrow> (Inl e, ws)))"

definition WithdrawalHistoryItem_to_dict :: "WithdrawalHistoryItem \<Rightarrow> json" where
  "WithdrawalHistoryItem_to_dict item =
     JDict [(''id'', JInt (WithdrawalHistoryItem.id item)),
            (''timestamp'', JInt (WithdrawalHistoryItem.timestamp item)),
            (''address'', WithdrawalHistoryItem.address item),
            (''amount'', JStr (Decimal_str (WithdrawalHistoryItem.amount item))),
            (''txid'', WithdrawalHistoryItem.txid item),
            (''fee'', JStr (Decimal_str (WithdrawalHistoryItem.fee item))),
            (''status'', WithdrawalHistoryItem.status item)]"

definition WithdrawalRecords_to_dict :: "WithdrawalRecords \<Rightarrow> json" where
  "WithdrawalRecords_to_dict r =
     JList (map WithdrawalHistoryItem_to_dict (WithdrawalRecords.items r))"

section \<open>models/trade.py\<close>

record OrderResponse =
  filled_amount :: decimal
  unfilled_amount :: decimal
  order_id :: int
  balances :: "(string \<times> decimal) list"

definition OrderResponse_from_dict :: "pylib \<Rightarrow> json \<Rightarrow> pyexn + OrderResponse" where
  "OrderResponse_from_dict L data =
     and_then (and_then (and_then (py_get data ''funds'' (JDict [])) py_items) (Decimal_dict L)) (\<lambda>bs.
     and_then (Decimal_get L data ''received'' (JStr ''0'')) (\<lambda>received.
     and_then (Decimal_get L data ''remains'' (JStr ''0'')) (\<lambda>remains.
     and_then (and_then (py_get data ''order_id'' (JInt 0)) py_int) (\<lambda>oid.
       Inr \<lparr>OrderResponse.filled_amount = received, OrderResponse.unfilled_amount = remains,
            OrderResponse.order_id = oid, OrderResponse.balances = bs\<rparr>))))"

definition OrderResponse_to_dict :: "OrderResponse \<Rightarrow> json" where
  "OrderResponse_to_dict r =
     JDict [(''received'', JStr (Decimal_str (OrderResponse.filled_amount r))),
            (''remains'', JStr (Decimal_str (OrderResponse.unfilled_amount r))),
            (''order_id'', JInt (OrderResponse.order_id r)),
            (''funds'', str_dict (OrderResponse.balances r))]"

record OpenOrder =
  currency_pair :: json
  order_type :: json
  price :: decimal
  quantity :: decimal
  order_time :: string

record OpenOrderList =
  open_orders :: "(int \<times> OpenOrder) list"

text \<open>The construction of one \<open>OpenOrder\<close>; \<open>order_data\<close> is not checked to be a dict.\<close>

definition OpenOrder_of :: "pylib \<Rightarrow> json \<Rightarrow> pyexn + OpenOrder" where
  "OpenOrder_of L order_data =
     and_then (py_get order_data ''currency_pair'' (JStr [])) (\<lambda>cp.
     and_then (py_get order_data ''action'' (JStr [])) (\<lambda>action.
     and_then (Decimal_get L order_data ''price'' (JStr ''0'')) (\<lambda>p.
     and_then (Decimal_get L order_data ''amount'' (JStr ''0'')) (\<lambda>q.
     and_then (and_then (and_then (py_get order_data ''timestamp'' (JInt 0)) py_int)
                 (fromtimestamp_isoformat L)) (\<lambda>t.
       Inr \<lparr>OpenOrder.currency_pair = cp, OpenOrder.order_type = action, OpenOrder.price = p,
            OpenOrder.quantity = q, OpenOrder.order_time = t\<rparr>)))))"

text \<open>
  The loop of \<open>OpenOrderList.from_dict\<close>; \<open>orders\<close> is the dict \<open>open_orders\<close> built so far.
  It has no \<open>try\<close> and no \<open>isinstance\<close> check.
\<close>

fun open_orders_loop :: "pylib \<Rightarrow> (int \<times> OpenOrder) list \<Rightarrow> (string \<times> json) list \<Rightarrow> pyexn + (int \<times> OpenOrder) list" where
  "open_orders_loop L orders [] = Inr orders"
| "open_orders_loop L orders ((order_id_str, order_data) # rest) =
     (if isdigit order_id_str
      then and_then (int_of_str order_id_str) (\<lambda>oid.
           and_then (OpenOrder_of L order_data) (\<lambda>order.
             open_orders_loop L (dict_set orders oid order) rest))
      else open_orders_loop L orders rest)"

definition OpenOrderList_from_dict :: "pylib \<Rightarrow> json \<Rightarrow> pyexn + OpenOrderList" where
  "OpenOrderList_from_dict L data =
     and_then (py_items data) (\<lambda>kvs.
     and_then (open_orders_loop L [] kvs) (\<lambda>os. Inr \<lparr>OpenOrderList.open_orders = os\<rparr>))"

definition OpenOrder_to_dict :: "OpenOrder \<Rightarrow> json" where
  "OpenOrder_to_dict order_item =
     JDict [(''currency_pair'', OpenOrder.currency_pair order_item),
            (''action'', OpenOrder.order_type order_item),
            (''price'', JStr (Decimal_str (OpenOrder.price order_item))),
            (''amount'', JStr (Decimal_str (OpenOrder.quantity order_item))),
            (''date'', JStr (OpenOrder.order_time order_item))]"

definition OpenOrderList_to_dict :: "OpenOrderList \<Rightarrow> json" where
  "OpenOrderList_to_dict l =
     JDict (foldl (\<lambda>result kv. dict_set result (str_of_int (fst kv)) (OpenOrder_to_dict (snd kv)))
              [] (OpenOrderList.open_orders l))"

record CancelOrderResponse =
  order_id :: int
  balances :: "(string \<times> decimal) list"

definition CancelOrderResponse_from_dict :: "pylib \<Rightarrow> json \<Rightarrow> pyexn + CancelOrderResponse" where
  "CancelOrderResponse_from_dict L data =
     and_then (and_then (and_then (py_get data ''funds'' (JDict [])) py_items) (Decimal_dict L)) (\<lambda>bs.
     and_then (and_then (py_get data ''order_id'' (JInt 0)) py_int) (\<lambda>oid.
       Inr \<lparr>CancelOrderResponse.order_id = oid, CancelOrderResponse.balances = bs\<rparr>))"

definition CancelOrderResponse_to_dict :: "CancelOrderResponse \<Rightarrow> json" where
  "CancelOrderResponse_to_dict r =
     JDict [(''order_id'', JInt (CancelOrderResponse.order_id r)),
            (''funds'', str_dict (CancelOrderResponse.balances r))]"

record TradeExecution =
  execution_id :: int
  currency_pair :: json
  trade_side :: string
  price :: decimal
  quantity :: decimal
  fee_amount :: decimal
  market_role :: string
  execution_time :: "string option"

record TradeExecutionList =
  executions :: "TradeExecution list"

text \<open>The two \<open>if\<close> chains of \<open>TradeExecutionList.from_dict\<close>, from \<open>your_action\<close> and \<open>action\<close>.\<close>

definition trade_side_of :: "json \<Rightarrow> string" where
  "trade_side_of your_action =
     (if your_action = JStr ''both'' then ''self''
      else if your_action = JStr ''bid'' then ''buy''
      else if your_action = JStr ''ask'' then ''sell''
      else ''unknown'')"

definition market_role_of :: "json \<Rightarrow> json \<Rightarrow> string" where
  "market_role_of action your_action =
     (if your_action = JStr ''both'' then ''both''
      else if (action = JStr ''bid'' \<and> your_action = JStr ''bid'') \<or>
              (action = JStr ''ask'' \<and> your_action = JStr ''ask'') then ''taker''
      else if (action = JStr ''bid'' \<and> your_action = JStr ''ask'') \<or>
              (action = JStr ''ask'' \<and> your_action = JStr ''bid'') then ''maker''
      else ''unknown'')"

definition trade_execution_time :: "pylib \<Rightarrow> (string \<times> json) list \<Rightarrow> pyexn + string option" where
  "trade_execution_time L item =
     (let timestamp = dict_get item ''timestamp'' JNone
      in if timestamp \<noteq> JNone \<and> timestamp \<noteq> JStr []
         then and_then (and_then (py_int timestamp) (fromtimestamp_isoformat L)) (\<lambda>t. Inr (Some t))
         else Inr None)"

definition parse_trade_item :: "pylib \<Rightarrow> string \<Rightarrow> (string \<times> json) list \<Rightarrow> pyexn + TradeExecution" where
  "parse_trade_item L trade_id item =
     and_then (int_of_str trade_id) (\<lambda>trade_id_int.
     and_then (trade_execution_time L item) (\<lambda>execution_time.
     (let action = dict_get item ''action'' (JStr []);
          your_action = dict_get item ''your_action'' (JStr [])
      in and_then (Decimal_of L (dict_get item ''price'' (JStr ''0''))) (\<lambda>p.
         and_then (Decimal_of L (dict_get item ''amount'' (JStr ''0''))) (\<lambda>q.
         and_then (Decimal_of L (dict_get item ''fee'' (JStr ''0''))) (\<lambda>f.
           Inr \<lparr>TradeExecution.execution_id = trade_id_int,
                TradeExecution.currency_pair = dict_get item ''currency_pair'' (JStr []),
                TradeExecution.trade_side = trade_side_of your_action,
                TradeExecution.price = p, TradeExecution.quantity = q,
                TradeExecution.fee_amount = f,
                TradeExecution.market_role = market_role_of action your_action,
                TradeExecution.execution_time = execution_time\<rparr>))))))"

fun trade_loop :: "pylib \<Rightarrow> (string \<times> json) list \<Rightarrow> (pyexn + TradeExecution list) \<times> warning list" where
  "trade_loop L [] = (Inr [], [])"
| "trade_loop L ((trade_id, item) # rest) =
     (case item of
        JDict d \<Rightarrow>
          (case parse_trade_item L trade_id d of
             Inr x \<Rightarrow>
               (case trade_loop L rest of
                  (Inr xs, ws) \<Rightarrow> (Inr (x # xs), ws)
                | (Inl e, ws) \<Rightarrow> (Inl e, ws))
           | Inl e \<Rightarrow>
               if item_handler_catches e
               then (case trade_loop L rest of (r, ws) \<Rightarrow> (r, (trade_id, e) # ws))
               else (Inl e, []))
      | _ \<Rightarrow> trade_loop L rest)"

definition TradeExecutionList_from_dict :: "pylib \<Rightarrow> json \<Rightarrow> (pyexn + TradeExecutionList) \<times> warning list" where
  "TradeExecutionList_from_dict L data =
     (case py_items data of
        Inl e \<Rightarrow> (Inl e, [])
      | Inr kvs \<Rightarrow>
          (case trade_loop L kvs of
             (Inr xs, ws) \<Rightarrow> (Inr \<lparr>TradeExecutionList.executions = xs\<rparr>, ws)
           | (Inl e, ws) \<Rightarrow> (Inl e, ws)))"

definition TradeExecution_to_dict :: "TradeExecution \<Rightarrow> json" where
  "TradeExecution_to_dict item =
     JDict ([(''id'', JInt (TradeExecution.execution_id item)),
             (''currency_pair'', TradeExecution.currency_pair item),
             (''action'', JStr (TradeExecution.trade_side item)),
             (''price'', JStr (Decimal_str (TradeExecution.price item))),
             (''amount'', JStr (Decimal_str (TradeExecution.quantity item))),
             (''fee'', JStr (Decimal_str (TradeExecution.fee_amount item))),
             (''your_action'', JStr (TradeExecution.market_role item))] @
            (case TradeExecution.execution_time item of
               None \<Rightarrow> [] | Some t \<Rightarrow> [(''timestamp'', JStr t)]))"

definition TradeExecutionList_to_dict :: "TradeExecutionList \<Rightarrow> json" where
  "TradeExecutionList_to_dict l =
     JList (map TradeExecution_to_dict (TradeExecutionList.executions l))"

section \<open>models/chart.py\<close>

record CandlestickData =
  timestamp :: string
  open_price :: decimal
  high_price :: decimal
  low_price :: decimal
  close_price :: decimal
  volume :: decimal

record PriceChartData =
  currency_pair :: string
  timeframe :: string
  start_date :: string
  end_date :: string
  candlesticks :: "CandlestickData list"
  data_count :: int

text \<open>
  The labels of the time frames are Japanese; a str is kept as its UTF-8 bytes. The
  characters are, in this order: minute, hour (two characters), day, week, and the
  character that ends every label.
\<close>

definition label_minute :: string where
  "label_minute = [CHR 0xE5, CHR 0x88, CHR 0x86]"

definition label_hour :: string where
  "label_hour = [CHR 0xE6, CHR 0x99, CHR 0x82, CHR 0xE9, CHR 0x96, CHR 0x93]"

definition label_day :: string where
  "label_day = [CHR 0xE6, CHR 0x97, CHR 0xA5]"

definition label_week :: string where
  "label_week = [CHR 0xE9, CHR 0x80, CHR 0xB1]"

definition label_end :: string where
  "label_end = [CHR 0xE8, CHR 0xB6, CHR 0xB3]"

definition timeframe_names :: "(string \<times> string) list" where
  "timeframe_names =
     [(''1'', ''1'' @ label_minute @ label_end), (''5'', ''5'' @ label_minute @ label_end),
      (''15'', ''15'' @ label_minute @ label_end), (''30'', ''30'' @ label_minute @ label_end),
      (''60'', ''1'' @ label_hour @ label_end), (''240'', ''4'' @ label_hour @ label_end),
      (''480'', ''8'' @ label_hour @ label_end), (''720'', ''12'' @ label_hour @ label_end),
      (''D'', label_day @ label_end), (''W'', label_week @ label_end)]"

definition timeframe_display :: "string \<Rightarrow> string" where
  "timeframe_display tf =
     (case map_of timeframe_names tf of None \<Rightarrow> tf @ label_end | Some n \<Rightarrow> n)"

definition Candlestick_of :: "pylib \<Rightarrow> json \<Rightarrow> pyexn + CandlestickData" where
  "Candlestick_of L item =
     and_then (and_then (py_get item ''time'' (JInt 0)) py_int) (\<lambda>timestamp_ms.
     and_then (fromtimestamp_float_isoformat L (int_truediv timestamp_ms 1000)) (\<lambda>timestamp_iso.
     and_then (Decimal_get L item ''open'' (JStr ''0'')) (\<lambda>op.
     and_then (Decimal_get L item ''high'' (JStr ''0'')) (\<lambda>hi.
     and_then (Decimal_get L item ''low'' (JStr ''0'')) (\<lambda>lo.
     and_then (Decimal_get L item ''close'' (JStr ''0'')) (\<lambda>cl.
     and_then (Decimal_get L item ''volume'' (JStr ''0'')) (\<lambda>vol.
       Inr \<lparr>CandlestickData.timestamp = timestamp_iso, CandlestickData.open_price = op,
            CandlestickData.high_price = hi, CandlestickData.low_price = lo,
            CandlestickData.close_price = cl, CandlestickData.volume = vol\<rparr>)))))))"

fun Candlesticks :: "pylib \<Rightarrow> json list \<Rightarrow> pyexn + CandlestickData list" where
  "Candlesticks L [] = Inr []"
| "Candlesticks L (item # r) =
     and_then (Candlestick_of L item) (\<lambda>c.
     and_then (Candlesticks L r) (\<lambda>cs. Inr (c # cs)))"

definition PriceChartData_from_dict :: "pylib \<Rightarrow> json \<Rightarrow> string \<Rightarrow> string \<Rightarrow> string \<Rightarrow> string \<Rightarrow> pyexn + PriceChartData" where
  "PriceChartData_from_dict L data cp tf sd ed =
     and_then (and_then (and_then (py_get data ''ohlc_data'' (JList [])) py_iter) (Candlesticks L)) (\<lambda>cs.
     and_then (and_then (py_get data ''data_count'' (JInt 0)) py_int) (\<lambda>n.
       Inr \<lparr>PriceChartData.currency_pair = cp, PriceChartData.timeframe = timeframe_display tf,
            PriceChartData.start_date = sd, PriceChartData.end_date = ed,
            PriceChartData.candlesticks = cs, PriceChartData.data_count = n\<rparr>))"

definition Candlestick_to_dict :: "pylib \<Rightarrow> CandlestickData \<Rightarrow> pyexn + json" where
  "Candlestick_to_dict L item =
     and_then (fromisoformat_timestamp L (CandlestickData.timestamp item)) (\<lambda>t.
       Inr (JDict [(''time'', JInt (int_of_float (float_mul_int t 1000))),
                   (''open'', JStr (Decimal_str (CandlestickData.open_price item))),
                   (''high'', JStr (Decimal_str (CandlestickData.high_price item))),
                   (''low'', JStr (Decimal_str (CandlestickData.low_price item))),
                   (''close'', JStr (Decimal_str (CandlestickData.close_price item))),
                   (''volume'', JStr (Decimal_str (CandlestickData.volume item)))]))"

fun Candlesticks_to_list :: "pylib \<Rightarrow> CandlestickData list \<Rightarrow> pyexn + json list" where
  "Candlesticks_to_list L [] = Inr []"
| "Candlesticks_to_list L (item # r) =
     and_then (Candlestick_to_dict L item) (\<lambda>j.
     and_then (Candlesticks_to_list L r) (\<lambda>js. Inr (j # js)))"

definition PriceChartData_to_dict :: "pylib \<Rightarrow> PriceChartData \<Rightarrow> pyexn + json" where
  "PriceChartData_to_dict L c =
     and_then (Candlesticks_to_list L (PriceChartData.candlesticks c)) (\<lambda>js.
       Inr (JDict [(''ohlc_data'', JList js), (''data_count'', JInt (PriceChartData.data_count c))]))"

section \<open>api/client.py\<close>

subsection \<open>The nonce and the request signature\<close>

text \<open>
  \<open>NonceGenerator.generate\<close> reads the clock once. A reading is the pair of
  \<open>int(time.mktime(now.timetuple()))\<close> and \<open>now.microsecond\<close>; the second is below
  \<open>10^6\<close> in a datetime. \<open>format_06d\<close> is the format \<open>{0:06d}\<close> on a number that is
  not negative.
\<close>

definition format_06d :: "nat \<Rightarrow> string" where
  "format_06d n = replicate (6 - length (str_of_nat n)) (CHR ''0'') @ str_of_nat n"

definition generate :: "int \<times> nat \<Rightarrow> pyexn + decimal" where
  "generate reading =
     (let datetime_part = str_of_int (fst reading);
          second_part = format_06d (snd reading)
      in Decimal_of_str (datetime_part @ ''.'' @ second_part))"

record ApiKeyAuthProvider =
  api_key :: string
  api_secret :: string

text \<open>Whether a parameter that is \<open>None\<close> or a dict is true in an \<open>if\<close>.\<close>

definition truthy_dict :: "('k \<times> 'v) list option \<Rightarrow> bool" where
  "truthy_dict p = (case p of None \<Rightarrow> False | Some d \<Rightarrow> d \<noteq> [])"

text \<open>
  \<open>get_auth_headers\<close> assigns into the dict it was given, which the caller still
  holds; only when the argument is \<open>None\<close> or empty does it bind a new dict. The result
  is the pair of the returned headers and the caller's argument as it is after the call.
\<close>

definition get_auth_headers :: "pylib \<Rightarrow> ApiKeyAuthProvider \<Rightarrow> int \<times> nat \<Rightarrow> (string \<times> json) list option \<Rightarrow> pyexn + ((string \<times> string) list \<times> (string \<times> json) list option)" where
  "get_auth_headers L self reading params =
     and_then (generate reading) (\<lambda>nonce.
       (let own = (case params of None \<Rightarrow> [] | Some d \<Rightarrow> d);
            signed = dict_set (if truthy_dict params then own else []) ''nonce''
                       (JStr (Decimal_str nonce));
            encoded_params = urlencode L signed;
            signature = hmac_sha512_hexdigest L (api_secret self) encoded_params
        in Inr ([(''key'', api_key self), (''sign'', signature)],
                if truthy_dict params then Some signed else params)))"

subsection \<open>The HTTP client\<close>

text \<open>
  What \<open>requests.post\<close>, \<open>raise_for_status\<close> and \<open>response.json()\<close> do is the
  exchange's answer, a parameter: the call raises, or it returns a response with a status
  code and a body that decodes as JSON or does not (requests raises its own
  \<open>JSONDecodeError\<close> then, a \<open>RequestException\<close>).
\<close>

datatype body = Json json | Not_json string

datatype http_outcome =
    Raises_ConnectionError
  | Raises_Timeout
  | Raises_RequestException string
  | Raises_other pyexn
  | Response int body

text \<open>
  The world outside the process: the successive readings of the clock, and the answer
  to a POST of \<open>data\<close> with \<open>headers\<close> to a URL. The state of a run counts the
  readings taken, lists the POSTs sent, and lists the warnings printed.
\<close>

record outside =
  clock :: "nat \<Rightarrow> int \<times> nat"
  requests_post :: "string \<Rightarrow> string \<Rightarrow> (string \<times> string) list \<Rightarrow> http_outcome"

record world =
  clock_reads :: nat
  posts_sent :: "(string \<times> string \<times> (string \<times> string) list) list"
  printed :: "warning list"

type_synonym 'a run = "world \<Rightarrow> (pyexn + 'a) \<times> world"

record HttpClient =
  auth_provider :: "ApiKeyAuthProvider option"

text \<open>The handling of the envelope inside the \<open>try\<close> of \<open>post\<close>, on the decoded body.\<close>

definition unwrap_envelope :: "json \<Rightarrow> pyexn + json" where
  "unwrap_envelope result =
     (case result of
        JDict d \<Rightarrow>
          if py_eq_int (dict_get d ''success'' JNone) 0
          then Inl (ValueError (API_error (dict_get d ''error'' (JStr ''Unknown error''))))
          else (case map_of d ''return'' of Some r \<Rightarrow> Inr r | None \<Rightarrow> Inr result)
      | _ \<Rightarrow> Inl AttributeError)"

text \<open>The last two \<open>except\<close> clauses of \<open>post\<close>: a ValueError passes, anything else is wrapped.\<close>

definition reraise :: "pyexn \<Rightarrow> pyexn" where
  "reraise e = (case e of ValueError m \<Rightarrow> ValueError m | _ \<Rightarrow> ValueError (Unexpected_error e))"

definition handle_outcome :: "http_outcome \<Rightarrow> pyexn + json" where
  "handle_outcome out =
     (case out of
        Raises_ConnectionError \<Rightarrow> Inl (ValueError Connection_error)
      | Raises_Timeout \<Rightarrow> Inl (ValueError Timeout_error)
      | Raises_RequestException s \<Rightarrow> Inl (ValueError (Request_error s))
      | Raises_other e \<Rightarrow> Inl (reraise e)
      | Response code b \<Rightarrow>
          if 400 \<le> code \<and> code < 600 then Inl (ValueError (HTTP_error code))
          else (case b of
                  Not_json s \<Rightarrow> Inl (ValueError (Request_error s))
                | Json result \<Rightarrow>
                    (case unwrap_envelope result of Inl e \<Rightarrow> Inl (reraise e) | Inr v \<Rightarrow> Inr v)))"

text \<open>\<open>headers.update(auth_headers)\<close>.\<close>

definition dict_update :: "('k \<times> 'v) list \<Rightarrow> ('k \<times> 'v) list \<Rightarrow> ('k \<times> 'v) list" where
  "dict_update d other = foldl (\<lambda>acc kv. dict_set acc (fst kv) (snd kv)) d other"

definition post :: "pylib \<Rightarrow> outside \<Rightarrow> HttpClient \<Rightarrow> string \<Rightarrow> (string \<times> json) list option \<Rightarrow> (string \<times> string) list option \<Rightarrow> json run" where
  "post L X self url params headers w =
     (case auth_provider self of
        None \<Rightarrow> (Inl (ValueError Auth_not_configured_env), w)
      | Some provider \<Rightarrow>
          (let params1 = (if truthy_dict params then params else Some []);
               reading = clock X (clock_reads w);
               w1 = w\<lparr>clock_reads := clock_reads w + 1\<rparr>
           in case get_auth_headers L provider reading params1 of
                Inl e \<Rightarrow> (Inl e, w1)
              | Inr (auth_headers, params2) \<Rightarrow>
                  (let headers1 = (if truthy_dict headers
                                   then dict_update (case headers of Some h \<Rightarrow> h | None \<Rightarrow> []) auth_headers
                                   else auth_headers);
                       encoded_params = urlencode L (case params2 of Some d \<Rightarrow> d | None \<Rightarrow> []);
                       w2 = w1\<lparr>posts_sent := posts_sent w1 @ [(url, encoded_params, headers1)]\<rparr>
                   in (handle_outcome (requests_post X url encoded_params headers1), w2))))"

subsection \<open>The facade\<close>

text \<open>
  \<open>ZaifApi\<close> holds one HTTP client, shared by its four parts, and their base URLs; the
  account and the trade part share one URL. An authentication provider is made only
  when both the key and the secret are given and not empty. The methods of
  \<open>AccountApi\<close> and \<open>TradeApi\<close> keep their names, but for \<open>TradeApi.cancel_order\<close>,
  which is \<open>api_cancel_order\<close> here: the tool handler has the same name.
\<close>

record ZaifApi =
  http :: HttpClient
  market_api_url :: string
  trade_api_url :: string
  chart_api_url :: string

definition truthy_str :: "string option \<Rightarrow> bool" where
  "truthy_str x = (case x of None \<Rightarrow> False | Some t \<Rightarrow> t \<noteq> [])"

definition ZaifApi_init :: "string option \<Rightarrow> string option \<Rightarrow> string \<Rightarrow> string \<Rightarrow> string \<Rightarrow> ZaifApi" where
  "ZaifApi_init key secret market_url trade_url chart_url =
     \<lparr>http = \<lparr>auth_provider =
                (if truthy_str key \<and> truthy_str secret
                 then Some \<lparr>api_key = (case key of Some k \<Rightarrow> k | None \<Rightarrow> []),
                            api_secret = (case secret of Some t \<Rightarrow> t | None \<Rightarrow> [])\<rparr>
                 else None)\<rparr>,
      market_api_url = market_url, trade_api_url = trade_url, chart_api_url = chart_url\<rparr>"

text \<open>A call followed by the conversion of its result; the conversion may print.\<close>

definition convert :: "json run \<Rightarrow> (json \<Rightarrow> pyexn + 'a) \<Rightarrow> 'a run" where
  "convert call from_dict w =
     (case call w of
        (Inl e, w') \<Rightarrow> (Inl e, w')
      | (Inr data, w') \<Rightarrow> (from_dict data, w'))"

definition convert_printing :: "json run \<Rightarrow> (json \<Rightarrow> (pyexn + 'a) \<times> warning list) \<Rightarrow> 'a run" where
  "convert_printing call from_dict w =
     (case call w of
        (Inl e, w') \<Rightarrow> (Inl e, w')
      | (Inr data, w') \<Rightarrow>
          (fst (from_dict data), w'\<lparr>printed := printed w' @ snd (from_dict data)\<rparr>))"

text \<open>An optional parameter of a request, added when it is not \<open>None\<close>.\<close>

definition opt_int :: "string \<Rightarrow> int option \<Rightarrow> (string \<times> json) list" where
  "opt_int k v = (case v of None \<Rightarrow> [] | Some n \<Rightarrow> [(k, JInt n)])"

definition opt_pair :: "string option \<Rightarrow> (string \<times> json) list" where
  "opt_pair cp = (case cp of None \<Rightarrow> [] | Some p \<Rightarrow> if p \<noteq> [] then [(''currency_pair'', JStr p)] else [])"

definition get_info :: "pylib \<Rightarrow> outside \<Rightarrow> ZaifApi \<Rightarrow> AccountBalance run" where
  "get_info L X api =
     convert (post L X (http api) (trade_api_url api) (Some [(''method'', JStr ''get_info'')]) None)
       (AccountBalance_from_dict L)"

definition get_personal_info :: "pylib \<Rightarrow> outside \<Rightarrow> ZaifApi \<Rightarrow> UserProfile run" where
  "get_personal_info L X api =
     convert (post L X (http api) (trade_api_url api)
                (Some [(''method'', JStr ''get_personal_info'')]) None)
       UserProfile_from_dict"

definition history_params :: "string \<Rightarrow> int option \<Rightarrow> int option \<Rightarrow> int option \<Rightarrow> string \<Rightarrow> (string \<times> json) list" where
  "history_params currency count from_timestamp end_timestamp method =
     [(''currency'', JStr currency)] @ opt_int ''count'' count @ opt_int ''from'' from_timestamp @
     opt_int ''end'' end_timestamp @ [(''method'', JStr method)]"

definition get_deposit_history :: "pylib \<Rightarrow> outside \<Rightarrow> ZaifApi \<Rightarrow> string \<Rightarrow> int option \<Rightarrow> int option \<Rightarrow> int option \<Rightarrow> DepositRecords run" where
  "get_deposit_history L X api currency count from_timestamp end_timestamp =
     convert_printing
       (post L X (http api) (trade_api_url api)
          (Some (history_params currency count from_timestamp end_timestamp ''deposit_history'')) None)
       (DepositRecords_from_dict L)"

definition get_withdraw_history :: "pylib \<Rightarrow> outside \<Rightarrow> ZaifApi \<Rightarrow> string \<Rightarrow> int option \<Rightarrow> int option \<Rightarrow> int option \<Rightarrow> WithdrawalRecords run" where
  "get_withdraw_history L X api currency count from_timestamp end_timestamp =
     convert_printing
       (post L X (http api) (trade_api_url api)
          (Some (history_params currency count from_timestamp end_timestamp ''withdraw_history'')) None)
       (WithdrawalRecords_from_dict L)"

definition open_order :: "pylib \<Rightarrow> outside \<Rightarrow> ZaifApi \<Rightarrow> string \<Rightarrow> string \<Rightarrow> decimal \<Rightarrow> decimal \<Rightarrow> OrderResponse run" where
  "open_order L X api cp action p a =
     convert
       (post L X (http api) (trade_api_url api)
          (Some [(''currency_pair'', JStr cp), (''action'', JStr action),
                 (''price'', JFloat (float_of_Decimal L p)),
                 (''amount'', JFloat (float_of_Decimal L a)),
                 (''method'', JStr ''trade'')]) None)
       (OrderResponse_from_dict L)"

definition api_cancel_order :: "pylib \<Rightarrow> outside \<Rightarrow> ZaifApi \<Rightarrow> int \<Rightarrow> string option \<Rightarrow> bool option \<Rightarrow> CancelOrderResponse run" where
  "api_cancel_order L X api oid cp is_token =
     convert
       (post L X (http api) (trade_api_url api)
          (Some ([(''order_id'', JInt oid)] @ opt_pair cp @
                 (case is_token of None \<Rightarrow> [] | Some b \<Rightarrow> [(''is_token'', JBool b)]) @
                 [(''method'', JStr ''cancel_order'')])) None)
       (CancelOrderResponse_from_dict L)"

definition get_active_orders :: "pylib \<Rightarrow> outside \<Rightarrow> ZaifApi \<Rightarrow> string option \<Rightarrow> OpenOrderList run" where
  "get_active_orders L X api cp =
     convert
       (post L X (http api) (trade_api_url api)
          (Some (opt_pair cp @ [(''method'', JStr ''active_orders'')])) None)
       (OpenOrderList_from_dict L)"

definition get_trade_history :: "pylib \<Rightarrow> outside \<Rightarrow> ZaifApi \<Rightarrow> string option \<Rightarrow> int option \<Rightarrow> int option \<Rightarrow> int option \<Rightarrow> TradeExecutionList run" where
  "get_trade_history L X api cp count from_timestamp end_timestamp =
     convert_printing
       (post L X (http api) (trade_api_url api)
          (Some (opt_pair cp @ opt_int ''count'' count @ opt_int ''since'' from_timestamp @
                 opt_int ''end'' end_timestamp @ [(''method'', JStr ''trade_history'')])) None)
       (TradeExecutionList_from_dict L)"

section \<open>tools/account.py and tools/trade.py\<close>

definition supported_pairs :: "string list" where
  "supported_pairs = [''btc_jpy'', ''eth_jpy'', ''xym_jpy'']"

definition get_account_balance :: "pylib \<Rightarrow> outside \<Rightarrow> ZaifApi \<Rightarrow> AccountBalance run" where
  "get_account_balance L X api w =
     (case auth_provider (http api) of
        None \<Rightarrow> (Inl (ValueError Auth_not_configured_dotenv), w)
      | Some _ \<Rightarrow> get_info L X api w)"

definition place_order :: "pylib \<Rightarrow> outside \<Rightarrow> ZaifApi \<Rightarrow> string \<Rightarrow> string \<Rightarrow> rat \<Rightarrow> rat \<Rightarrow> OrderResponse run" where
  "place_order L X api cp side p q w =
     (case auth_provider (http api) of
        None \<Rightarrow> (Inl (ValueError Auth_not_configured_dotenv), w)
      | Some _ \<Rightarrow>
          (case Decimal_of_str (float_repr L p) of
             Inl e \<Rightarrow> (Inl e, w)
           | Inr pd \<Rightarrow>
               (case Decimal_of_str (float_repr L q) of
                  Inl e \<Rightarrow> (Inl e, w)
                | Inr qd \<Rightarrow> open_order L X api cp side pd qd w)))"

definition cancel_order :: "pylib \<Rightarrow> outside \<Rightarrow> ZaifApi \<Rightarrow> int \<Rightarrow> string option \<Rightarrow> CancelOrderResponse run" where
  "cancel_order L X api oid cp w =
     (case auth_provider (http api) of
        None \<Rightarrow> (Inl (ValueError Auth_not_configured_dotenv), w)
      | Some _ \<Rightarrow> api_cancel_order L X api oid cp None w)"

definition get_open_orders :: "pylib \<Rightarrow> outside \<Rightarrow> ZaifApi \<Rightarrow> string option \<Rightarrow> OpenOrderList run" where
  "get_open_orders L X api cp w =
     (case auth_provider (http api) of
        None \<Rightarrow> (Inl (ValueError Auth_not_configured_dotenv), w)
      | Some _ \<Rightarrow>
          (case get_active_orders L X api cp w of
             (Inl e, w') \<Rightarrow> (Inl e, w')
           | (Inr orders, w') \<Rightarrow>
               (Inr (if OpenOrderList.open_orders orders \<noteq> []
                     then orders\<lparr>OpenOrderList.open_orders :=
                            filter (\<lambda>kv. OpenOrder.currency_pair (snd kv) \<in> set (map JStr supported_pairs))
                              (OpenOrderList.open_orders orders)\<rparr>
                     else orders), w')))"

text \<open>
  The two dates of \<open>get_trade_executions\<close>: an empty string gives \<open>None\<close>, anything
  else \<open>int\<close> of the timestamp that the conversion returns.
\<close>

definition date_arg :: "(string \<Rightarrow> pyexn + rat) \<Rightarrow> string \<Rightarrow> pyexn + int option" where
  "date_arg conv d =
     (if d \<noteq> [] then and_then (conv d) (\<lambda>t. Inr (Some (int_of_float t))) else Inr None)"

definition get_trade_executions :: "pylib \<Rightarrow> outside \<Rightarrow> ZaifApi \<Rightarrow> string option \<Rightarrow> int \<Rightarrow> string \<Rightarrow> string \<Rightarrow> TradeExecutionList run" where
  "get_trade_executions L X api cp limit sd ed w =
     (case auth_provider (http api) of
        None \<Rightarrow> (Inl (ValueError Auth_not_configured_dotenv), w)
      | Some _ \<Rightarrow>
          if (case cp of Some p \<Rightarrow> p \<notin> set supported_pairs | None \<Rightarrow> False)
          then (Inl (ValueError (Unsupported_pair (case cp of Some p \<Rightarrow> p | None \<Rightarrow> []))), w)
          else (case date_arg (fromisoformat_timestamp L) sd of
                  Inl e \<Rightarrow> (Inl e, w)
                | Inr from_timestamp \<Rightarrow>
                    (case date_arg (fromisoformat_end_of_day_timestamp L) ed of
                       Inl e \<Rightarrow> (Inl e, w)
                     | Inr end_timestamp \<Rightarrow>
                         (case get_trade_history L X api cp (Some limit) from_timestamp end_timestamp w of
                            (Inl e, w') \<Rightarrow> (Inl e, w')
                          | (Inr trade_history, w') \<Rightarrow>
                              (Inr (if TradeExecutionList.executions trade_history \<noteq> []
                                    then trade_history\<lparr>TradeExecutionList.executions :=
                                           filter (\<lambda>x. TradeExecution.currency_pair x \<in> set (map JStr supported_pairs))
                                             (TradeExecutionList.executions trade_history)\<rparr>
                                    else trade_history), w')))))"

section \<open>Test doubles\<close>

text \<open>
  A library and an exchange to run the definitions on concrete inputs: every timestamp
  is printed as one fixed string (the float ones as the string of 1.001 seconds after
  the epoch, in Japan), every date string is read as that time, a request is encoded as
  its keys, the digest is constant, the clock starts at a fixed second and advances by
  one microsecond per reading, and the exchange answers every POST with the body it is
  given.
\<close>

definition stub_lib :: pylib where
  "stub_lib =
     \<lparr>float_repr = (\<lambda>x. str_of_int \<lfloor>x\<rfloor> @ ''.0''),
      container_repr = (\<lambda>v. ''[]''),
      float_of_Decimal = decimal_value,
      fromtimestamp_isoformat = (\<lambda>n. Inr ''1970-01-01T09:00:00''),
      fromtimestamp_float_isoformat = (\<lambda>x. Inr ''1970-01-01T09:00:01.001000''),
      fromisoformat_timestamp = (\<lambda>s. Inr (int_truediv 1001 1000)),
      fromisoformat_end_of_day_timestamp = (\<lambda>s. Inr 53999),
      urlencode = (\<lambda>d. concat (map (\<lambda>kv. fst kv @ ''&'') d)),
      hmac_sha512_hexdigest = (\<lambda>k m. ''00'')\<rparr>"

definition stub_exchange :: "json \<Rightarrow> outside" where
  "stub_exchange answer =
     \<lparr>clock = (\<lambda>n. (1700000000, 123456 + n)),
      requests_post = (\<lambda>u d h. Response 200 (Json answer))\<rparr>"

definition stub_api :: ZaifApi where
  "stub_api = ZaifApi_init (Some ''key'') (Some ''secret'') ''market'' ''tapi'' ''chart''"

definition stub_api_no_credentials :: ZaifApi where
  "stub_api_no_credentials = ZaifApi_init None None ''market'' ''tapi'' ''chart''"

definition fresh_world :: world where
  "fresh_world = \<lparr>clock_reads = 0, posts_sent = [], printed = []\<rparr>"

text \<open>
  A chart response with one candle, at the time 1001 ms that \<open>stub_lib\<close> prints, once
  without a \<open>data_count\<close> field and once with the field \<open>'7'\<close>; and the candle
  as \<open>from_dict\<close> reads it.
\<close>

definition example_candle :: json where
  "example_candle =
     JDict [(''time'', JInt 1001), (''open'', JStr ''100''), (''high'', JStr ''110''),
            (''low'', JStr ''90''), (''close'', JStr ''105''), (''volume'', JStr ''2.5'')]"

definition example_candlestick :: CandlestickData where
  "example_candlestick =
     \<lparr>CandlestickData.timestamp = ''1970-01-01T09:00:01.001000'',
      CandlestickData.open_price = Decimal False 100 0,
      CandlestickData.high_price = Decimal False 110 0,
      CandlestickData.low_price = Decimal False 90 0,
      CandlestickData.close_price = Decimal False 105 0,
      CandlestickData.volume = Decimal False 25 (- 1)\<rparr>"

definition chart_without_count :: "(string \<times> json) list" where
  "chart_without_count = [(''ohlc_data'', JList [example_candle])]"

definition chart_with_count :: "(string \<times> json) list" where
  "chart_with_count = [(''ohlc_data'', JList [example_candle]), (''data_count'', JStr ''7'')]"

section \<open>Properties\<close>

subsection \<open>Evaluation\<close>

lemma and_then_Inr [simp]: "and_then (Inr v) f = f v"
  by (simp add: and_then_def)

lemma and_then_Inl [simp]: "and_then (Inl e) f = Inl e"
  by (simp add: and_then_def)

lemma and_then_Inr_iff: "and_then m f = Inr y \<longleftrightarrow> (\<exists>v. m = Inr v \<and> f v = Inr y)"
  by (cases m) simp_all

lemma digit_char_eval:
  "digit_char 0 = CHR ''0''" "digit_char 1 = CHR ''1''" "digit_char 2 = CHR ''2''"
  "digit_char 3 = CHR ''3''" "digit_char 4 = CHR ''4''" "digit_char 5 = CHR ''5''"
  "digit_char 6 = CHR ''6''" "digit_char 7 = CHR ''7''" "digit_char 8 = CHR ''8''"
  "digit_char 9 = CHR ''9''" "digit_char (Suc 0) = CHR ''1''"
  by code_simp+

lemmas py_eval =
  digit_char_eval str_of_nat.simps str_of_int_def int_of_str_def strip_def is_space_def
  strip_c_def is_c_space_def is_digit_def nat_of_digits_def digit_val_def
  dict_get_def Decimal_of_def py_str_def Decimal_of_str_def parse_exponent_def isdigit_def
  py_int_def py_get_def py_items_def py_getitem_def py_index_def py_iter_def Let_def
  item_handler_catches_def Decimal_item_def Decimal_get_def

subsection \<open>Digit strings\<close>

text \<open>
  The equation of \<open>str_of_nat\<close> unfolds for ever on a variable; it is used by name.
\<close>

declare str_of_nat.simps [simp del]

lemma str_of_nat_small: "n < 10 \<Longrightarrow> str_of_nat n = [digit_char n]"
  by (subst str_of_nat.simps) simp

lemma str_of_nat_large:
  "\<not> n < 10 \<Longrightarrow> str_of_nat n = str_of_nat (n div 10) @ [digit_char (n mod 10)]"
  by (subst str_of_nat.simps) simp

lemma digit_val_digit_char: "d < 10 \<Longrightarrow> digit_val (digit_char d) = d"
  by (simp add: digit_val_def digit_char_def)

lemma is_digit_digit_char: "d < 10 \<Longrightarrow> is_digit (digit_char d)"
  by (simp add: is_digit_def digit_char_def)

lemma str_of_nat_digits: "list_all is_digit (str_of_nat n)"
proof (induction n rule: str_of_nat.induct)
  case (1 n)
  show ?case
  proof (cases "n < 10")
    case True
    then show ?thesis by (simp add: str_of_nat_small is_digit_digit_char)
  next
    case False
    with 1 have "list_all is_digit (str_of_nat (n div 10))" by simp
    moreover have "is_digit (digit_char (n mod 10))" by (simp add: is_digit_digit_char)
    ultimately show ?thesis using False by (simp add: str_of_nat_large)
  qed
qed

lemma str_of_nat_not_Nil: "str_of_nat n \<noteq> []"
  by (cases "n < 10") (simp_all add: str_of_nat_small str_of_nat_large)

lemma nat_of_digits_Nil [simp]: "nat_of_digits [] = 0"
  by (simp add: nat_of_digits_def)

lemma nat_of_digits_snoc: "nat_of_digits (s @ [c]) = 10 * nat_of_digits s + digit_val c"
  by (simp add: nat_of_digits_def)

lemma nat_of_digits_append:
  "nat_of_digits (a @ b) = nat_of_digits a * 10 ^ length b + nat_of_digits b"
proof (induction b rule: rev_induct)
  case Nil
  then show ?case by simp
next
  case (snoc c b)
  have "nat_of_digits (a @ b @ [c]) = 10 * nat_of_digits (a @ b) + digit_val c"
    using nat_of_digits_snoc [of "a @ b" c] by simp
  also have "\<dots> = 10 * (nat_of_digits a * 10 ^ length b + nat_of_digits b) + digit_val c"
    by (simp add: snoc.IH)
  also have "\<dots> = nat_of_digits a * 10 ^ length (b @ [c]) + nat_of_digits (b @ [c])"
    by (simp add: nat_of_digits_snoc algebra_simps)
  finally show ?case .
qed

lemma nat_of_digits_str_of_nat: "nat_of_digits (str_of_nat n) = n"
proof (induction n rule: str_of_nat.induct)
  case (1 n)
  show ?case
  proof (cases "n < 10")
    case True
    then show ?thesis by (simp add: str_of_nat_small nat_of_digits_def digit_val_digit_char)
  next
    case False
    with 1 have ih: "nat_of_digits (str_of_nat (n div 10)) = n div 10" by simp
    have "str_of_nat n = str_of_nat (n div 10) @ [digit_char (n mod 10)]"
      using False by (rule str_of_nat_large)
    then have "nat_of_digits (str_of_nat n) = 10 * (n div 10) + n mod 10"
      by (simp add: nat_of_digits_snoc ih digit_val_digit_char)
    then show ?thesis by simp
  qed
qed

lemma nat_of_digits_zeros: "nat_of_digits (replicate k (CHR ''0'')) = 0"
proof (induction k)
  case 0
  then show ?case by simp
next
  case (Suc k)
  have "replicate (Suc k) (CHR ''0'') = replicate k (CHR ''0'') @ [CHR ''0'']"
    by (simp add: replicate_append_same)
  then show ?case by (simp add: nat_of_digits_snoc Suc digit_val_def del: replicate_Suc)
qed

lemma nat_of_digits_leading_zeros:
  "nat_of_digits (replicate k (CHR ''0'') @ s) = nat_of_digits s"
  by (simp add: nat_of_digits_append nat_of_digits_zeros)

lemma length_str_of_nat: "0 < k \<Longrightarrow> n < 10 ^ k \<Longrightarrow> length (str_of_nat n) \<le> k"
proof (induction n arbitrary: k rule: str_of_nat.induct)
  case (1 n)
  show ?case
  proof (cases "n < 10")
    case True
    with 1 show ?thesis by (simp add: str_of_nat_small)
  next
    case False
    with "1.prems" have k: "1 < k" by (cases "k = 1") auto
    then obtain j where j: "k = Suc j" "0 < j" by (cases k) auto
    with "1.prems" have "n div 10 < 10 ^ j" by (simp add: less_mult_imp_div_less mult.commute)
    with "1.IH" [OF False \<open>0 < j\<close>] have "length (str_of_nat (n div 10)) \<le> j" by simp
    with j False show ?thesis by (simp add: str_of_nat_large)
  qed
qed

lemma is_digit_zero: "is_digit (CHR ''0'')"
  by (simp add: is_digit_def)

lemma is_digit_not_special:
  assumes "is_digit c"
  shows "\<not> is_space c" "c \<noteq> CHR ''_''" "c \<noteq> CHR ''.''" "c \<noteq> CHR ''E''" "c \<noteq> CHR ''e''"
    "c \<noteq> CHR ''-''" "c \<noteq> CHR ''+''"
  using assms by (auto simp: is_digit_def is_space_def Let_def)

lemma takeWhile_all: "list_all P xs \<Longrightarrow> ys = [] \<or> \<not> P (hd ys) \<Longrightarrow> takeWhile P (xs @ ys) = xs"
  by (cases ys) (simp_all add: list_all_iff takeWhile_append2 takeWhile_eq_all_conv)

lemma dropWhile_all: "list_all P xs \<Longrightarrow> ys = [] \<or> \<not> P (hd ys) \<Longrightarrow> dropWhile P (xs @ ys) = ys"
  by (cases ys) (simp_all add: list_all_iff dropWhile_append2)

lemma strip_id: "list_all (\<lambda>c. \<not> is_space c) s \<Longrightarrow> strip s = s"
proof -
  assume a: "list_all (\<lambda>c. \<not> is_space c) s"
  have d: "\<And>t. list_all (\<lambda>c. \<not> is_space c) t \<Longrightarrow> dropWhile is_space t = t"
    by (case_tac t) auto
  from a have "list_all (\<lambda>c. \<not> is_space c) (rev s)" by (simp add: list_all_iff)
  with a d show ?thesis by (simp add: strip_def)
qed

subsection \<open>Reading back what the decimal module prints\<close>

lemma isdigit_str_of_nat: "isdigit (str_of_nat n)"
  by (simp add: isdigit_def str_of_nat_not_Nil str_of_nat_digits)

lemma parse_exponent_E:
  "parse_exponent (CHR ''E'' # (if e < 0 then CHR ''-'' else CHR ''+'') # str_of_nat (nat \<bar>e\<bar>)) = Some e"
  by (simp add: parse_exponent_def isdigit_str_of_nat nat_of_digits_str_of_nat)

lemma parse_exponent_Nil: "parse_exponent [] = Some 0"
  by (simp add: parse_exponent_def)

lemma Decimal_of_str_canonical:
  assumes ip: "list_all is_digit ip" "ip \<noteq> []"
    and fp: "list_all is_digit fp"
    and t: "t = [] \<and> e = 0 \<or>
            t = CHR ''E'' # (if e < 0 then CHR ''-'' else CHR ''+'') # str_of_nat (nat \<bar>e\<bar>)"
  shows "Decimal_of_str ((if neg then ''-'' else []) @ ip @ (if fp = [] then [] else CHR ''.'' # fp) @ t) =
           Inr (Decimal neg (nat_of_digits (ip @ fp)) (e - int (length fp)))"
proof -
  define dp where "dp = (if fp = [] then [] else CHR ''.'' # fp)"
  define s where "s = (if neg then ''-'' else []) @ ip @ dp @ t"
  have digits_ok: "list_all (\<lambda>c. \<not> is_space c \<and> c \<noteq> CHR ''_'') ds" if "list_all is_digit ds" for ds
    using that by (auto simp: list_all_iff dest: is_digit_not_special)
  have t_ok: "list_all (\<lambda>c. \<not> is_space c \<and> c \<noteq> CHR ''_'') t"
    using t digits_ok [OF str_of_nat_digits] by (auto simp: is_space_def)
  have dp_ok: "list_all (\<lambda>c. \<not> is_space c \<and> c \<noteq> CHR ''_'') dp"
    using digits_ok [OF fp] by (simp add: dp_def is_space_def)
  have s_ok: "list_all (\<lambda>c. \<not> is_space c \<and> c \<noteq> CHR ''_'') s"
    using digits_ok [OF ip(1)] t_ok dp_ok by (simp add: s_def is_space_def)
  then have "strip s = s" by (intro strip_id) (simp add: list_all_iff)
  moreover from s_ok have "filter (\<lambda>c. c \<noteq> CHR ''_'') s = s"
    by (simp add: list_all_iff)
  ultimately have s_eq: "filter (\<lambda>c. c \<noteq> CHR ''_'') (strip s) = s" by simp
  from ip obtain c0 r0 where ip_eq: "ip = c0 # r0" and c0: "is_digit c0"
    by (cases ip) auto
  have neg_eq: "(case s of c # _ \<Rightarrow> c = CHR ''-'' | [] \<Rightarrow> False) = neg"
    using is_digit_not_special [OF c0] by (simp add: s_def ip_eq)
  have body_eq: "(case s of c # r \<Rightarrow> if c = CHR ''-'' \<or> c = CHR ''+'' then r else s | [] \<Rightarrow> s) =
      ip @ dp @ t"
    using is_digit_not_special [OF c0] by (simp add: s_def ip_eq)
  have t_hd: "t = [] \<or> \<not> is_digit (hd t)"
    using t by (auto simp: is_digit_def)
  have rest_hd: "dp @ t = [] \<or> \<not> is_digit (hd (dp @ t))"
    using t_hd by (auto simp: dp_def is_digit_def)
  have tw: "takeWhile is_digit (ip @ dp @ t) = ip"
    by (rule takeWhile_all [OF ip(1) rest_hd])
  have dw: "dropWhile is_digit (ip @ dp @ t) = dp @ t"
    by (rule dropWhile_all [OF ip(1) rest_hd])
  have dot: "(case dp @ t of c # _ \<Rightarrow> c = CHR ''.'' | [] \<Rightarrow> False) = (fp \<noteq> [])"
    using t by (auto simp: dp_def)
  have tl_eq: "fp \<noteq> [] \<Longrightarrow> tl (dp @ t) = fp @ t"
    by (simp add: dp_def)
  have tw2: "takeWhile is_digit (fp @ t) = fp"
    by (rule takeWhile_all [OF fp t_hd])
  have dw2: "dropWhile is_digit (fp @ t) = t"
    by (rule dropWhile_all [OF fp t_hd])
  have pe: "parse_exponent t = Some e"
    using t parse_exponent_E [of e] by (auto simp: parse_exponent_Nil)
  have tail_eq: "(if fp \<noteq> [] then dropWhile is_digit (tl (dp @ t)) else dp @ t) = t"
    by (simp add: tl_eq dw2) (simp add: dp_def)
  have frac_eq: "(if fp \<noteq> [] then takeWhile is_digit (tl (dp @ t)) else []) = fp"
    by (simp add: tl_eq tw2)
  have "Decimal_of_str s = Inr (Decimal neg (nat_of_digits (ip @ fp)) (e - int (length fp)))"
    unfolding Decimal_of_str_def Let_def s_eq neg_eq body_eq tw dw dot tail_eq frac_eq pe
    using ip(2) by simp
  then show ?thesis by (simp add: s_def dp_def)
qed

lemma list_all_take_drop:
  "list_all P xs \<Longrightarrow> list_all P (take k xs) \<and> list_all P (drop k xs)"
  by (auto simp: list_all_iff dest: in_set_takeD in_set_dropD)

lemma Decimal_str_roundtrip: "Decimal_of_str (Decimal_str d) = Inr d"
proof -
  obtain sg c e where d: "d = Decimal sg c e" by (cases d)
  define ds where "ds = str_of_nat c"
  define n where "n = int (length ds)"
  define ld where "ld = e + n"
  have ds_dig: "list_all is_digit ds" by (simp add: ds_def str_of_nat_digits)
  have ds_ne: "ds \<noteq> []" by (simp add: ds_def str_of_nat_not_Nil)
  have n_pos: "0 < n" using ds_ne by (simp add: n_def)
  have val: "nat_of_digits ds = c" by (simp add: ds_def nat_of_digits_str_of_nat)
  have zero_dig: "list_all is_digit (replicate k (CHR ''0''))" for k
    by (simp add: list_all_iff is_digit_zero)
  have str0: "Decimal_str d =
      (if sg then ''-'' else []) @
      (if (if e \<le> 0 \<and> - 6 < ld then ld else 1) \<le> 0 then ''0''
       else if n \<le> (if e \<le> 0 \<and> - 6 < ld then ld else 1)
         then ds @ replicate (nat ((if e \<le> 0 \<and> - 6 < ld then ld else 1) - n)) (CHR ''0'')
       else take (nat (if e \<le> 0 \<and> - 6 < ld then ld else 1)) ds) @
      (if (if e \<le> 0 \<and> - 6 < ld then ld else 1) \<le> 0
         then CHR ''.'' # replicate (nat (- (if e \<le> 0 \<and> - 6 < ld then ld else 1))) (CHR ''0'') @ ds
       else if n \<le> (if e \<le> 0 \<and> - 6 < ld then ld else 1) then []
       else CHR ''.'' # drop (nat (if e \<le> 0 \<and> - 6 < ld then ld else 1)) ds) @
      (if ld = (if e \<le> 0 \<and> - 6 < ld then ld else 1) then []
       else CHR ''E'' # (if ld - (if e \<le> 0 \<and> - 6 < ld then ld else 1) < 0 then CHR ''-'' else CHR ''+'')
              # str_of_nat (nat \<bar>ld - (if e \<le> 0 \<and> - 6 < ld then ld else 1)\<bar>))"
    unfolding Decimal_str_def Let_def d ds_def n_def ld_def by simp
  consider (frac) "e \<le> 0" "- 6 < ld" "ld \<le> 0"
    | (whole) "e \<le> 0" "- 6 < ld" "n \<le> ld"
    | (mixed) "e \<le> 0" "- 6 < ld" "0 < ld" "ld < n"
    | (sci1) "\<not> (e \<le> 0 \<and> - 6 < ld)" "n = 1"
    | (sci) "\<not> (e \<le> 0 \<and> - 6 < ld)" "1 < n"
    using n_pos by linarith
  then show ?thesis
  proof cases
    case frac
    let ?fp = "replicate (nat (- ld)) (CHR ''0'') @ ds"
    have str: "Decimal_str d = (if sg then ''-'' else []) @ ''0'' @ (if ?fp = [] then [] else CHR ''.'' # ?fp) @ []"
      using frac ds_ne by (simp add: str0)
    have "Decimal_of_str (Decimal_str d) =
            Inr (Decimal sg (nat_of_digits (''0'' @ ?fp)) (0 - int (length ?fp)))"
      unfolding str
      by (rule Decimal_of_str_canonical) (simp_all add: is_digit_zero ds_dig zero_dig)
    moreover have "nat_of_digits (''0'' @ ?fp) = c"
      using nat_of_digits_leading_zeros [of "Suc (nat (- ld))" ds] val by simp
    moreover have "0 - int (length ?fp) = e"
      using frac by (simp add: ld_def n_def)
    ultimately show ?thesis by (simp add: d)
  next
    case whole
    then have e0: "e = 0" and ldn: "ld = n" by (simp_all add: ld_def)
    have str: "Decimal_str d = (if sg then ''-'' else []) @ ds @ (if ([]::string) = [] then [] else CHR ''.'' # []) @ []"
      using whole n_pos ldn by (simp add: str0)
    have "Decimal_of_str (Decimal_str d) = Inr (Decimal sg (nat_of_digits (ds @ [])) (0 - int (length ([]::string))))"
      unfolding str
      by (rule Decimal_of_str_canonical) (simp_all add: ds_dig ds_ne)
    then show ?thesis by (simp add: d val e0)
  next
    case mixed
    let ?ip = "take (nat ld) ds" and ?fp = "drop (nat ld) ds"
    have fp_ne: "?fp \<noteq> []" and ip_ne: "?ip \<noteq> []"
      using mixed ds_ne by (simp_all add: n_def)
    have str: "Decimal_str d = (if sg then ''-'' else []) @ ?ip @ (if ?fp = [] then [] else CHR ''.'' # ?fp) @ []"
      using mixed fp_ne by (simp add: str0)
    have "Decimal_of_str (Decimal_str d) =
            Inr (Decimal sg (nat_of_digits (?ip @ ?fp)) (0 - int (length ?fp)))"
      unfolding str
      by (rule Decimal_of_str_canonical) (use ip_ne list_all_take_drop [OF ds_dig] in simp_all)
    moreover have "0 - int (length ?fp) = e"
      using mixed by (simp add: ld_def n_def)
    ultimately show ?thesis by (simp add: d val)
  next
    case sci1
    have ld1: "ld \<noteq> 1" using sci1 by (auto simp: ld_def)
    have cond: "(e \<le> 0 \<and> - 6 < ld) = False" using sci1(1) by simp
    let ?t = "CHR ''E'' # (if ld - 1 < 0 then CHR ''-'' else CHR ''+'') # str_of_nat (nat \<bar>ld - 1\<bar>)"
    have str: "Decimal_str d = (if sg then ''-'' else []) @ ds @ (if ([]::string) = [] then [] else CHR ''.'' # []) @ ?t"
      using sci1(2) ld1 by (simp add: str0 cond)
    have "Decimal_of_str (Decimal_str d) =
            Inr (Decimal sg (nat_of_digits (ds @ [])) ((ld - 1) - int (length ([]::string))))"
      unfolding str
      by (rule Decimal_of_str_canonical) (simp_all add: ds_dig ds_ne)
    moreover have "ld - 1 = e" using sci1 by (simp add: ld_def)
    ultimately show ?thesis by (simp add: d val)
  next
    case sci
    have ld1: "ld \<noteq> 1" using sci by (auto simp: ld_def)
    have cond: "(e \<le> 0 \<and> - 6 < ld) = False" using sci(1) by simp
    let ?ip = "take 1 ds" and ?fp = "drop 1 ds"
    let ?t = "CHR ''E'' # (if ld - 1 < 0 then CHR ''-'' else CHR ''+'') # str_of_nat (nat \<bar>ld - 1\<bar>)"
    have fp_ne: "?fp \<noteq> []" and ip_ne: "?ip \<noteq> []"
      using sci ds_ne by (simp_all add: n_def)
    have str: "Decimal_str d = (if sg then ''-'' else []) @ ?ip @ (if ?fp = [] then [] else CHR ''.'' # ?fp) @ ?t"
      using sci(2) ld1 fp_ne by (simp add: str0 cond)
    have "Decimal_of_str (Decimal_str d) =
            Inr (Decimal sg (nat_of_digits (?ip @ ?fp)) ((ld - 1) - int (length ?fp)))"
      unfolding str
      by (rule Decimal_of_str_canonical) (use ip_ne list_all_take_drop [OF ds_dig] in simp_all)
    moreover have "(ld - 1) - int (length ?fp) = e"
      using sci by (simp add: ld_def n_def)
    ultimately show ?thesis by (simp add: d val)
  qed
qed

subsection \<open>Trade side and market role\<close>

lemma parse_trade_item_sides:
  assumes "parse_trade_item L k item = Inr x"
  shows "TradeExecution.trade_side x = trade_side_of (dict_get item ''your_action'' (JStr []))"
    and "TradeExecution.market_role x =
           market_role_of (dict_get item ''action'' (JStr [])) (dict_get item ''your_action'' (JStr []))"
  using assms
  by (auto simp: parse_trade_item_def and_then_Inr_iff Let_def)

lemma trade_loop_mem:
  "trade_loop L kvs = (Inr xs, ws) \<Longrightarrow> x \<in> set xs \<Longrightarrow>
     \<exists>k item. (k, JDict item) \<in> set kvs \<and> parse_trade_item L k item = Inr x"
proof (induction kvs arbitrary: xs ws)
  case Nil
  then show ?case by simp
next
  case (Cons kv kvs)
  obtain k v where kv: "kv = (k, v)" by (cases kv)
  show ?case
  proof (cases v)
    case (JDict d)
    show ?thesis
    proof (cases "parse_trade_item L k d")
      case (Inr y)
      with Cons.prems kv JDict obtain ys where
        ys: "trade_loop L kvs = (Inr ys, ws)" and xs: "xs = y # ys"
        by (auto split: prod.splits sum.splits)
      from Cons.prems(2) xs consider "x = y" | "x \<in> set ys" by auto
      then show ?thesis
      proof cases
        case 1
        with Inr kv JDict show ?thesis by auto
      next
        case 2
        from Cons.IH [OF ys 2] show ?thesis by auto
      qed
    next
      case (Inl e)
      with Cons.prems kv JDict obtain ws' where "trade_loop L kvs = (Inr xs, ws')"
        by (auto split: prod.splits sum.splits if_splits)
      from Cons.IH [OF this Cons.prems(2)] show ?thesis by auto
    qed
  qed (use Cons kv in \<open>auto\<close>)
qed

text \<open>
  Claim C1, as the code has it. Every execution that \<open>TradeExecutionList.from_dict\<close>
  returns comes from an entry of the response that is a dict, and its trade side and
  market role follow from the entry's \<open>your_action\<close> and \<open>action\<close> (each the empty
  string when missing): \<open>both\<close> gives self and both; \<open>bid\<close> gives buy, and taker when
  \<open>action\<close> is \<open>bid\<close>, maker when it is \<open>ask\<close>, unknown otherwise; \<open>ask\<close> gives sell,
  and taker when \<open>action\<close> is \<open>ask\<close>, maker when it is \<open>bid\<close>, unknown otherwise;
  anything else gives unknown and unknown.
\<close>

theorem C1_side_and_role_table:
  assumes "fst (TradeExecutionList_from_dict L (JDict kvs)) = Inr r"
    and "x \<in> set (TradeExecutionList.executions r)"
  shows "\<exists>trade_id item.
           (trade_id, JDict item) \<in> set kvs \<and> parse_trade_item L trade_id item = Inr x \<and>
           (let your_action = dict_get item ''your_action'' (JStr []);
                action = dict_get item ''action'' (JStr [])
            in TradeExecution.trade_side x =
                 (if your_action = JStr ''both'' then ''self''
                  else if your_action = JStr ''bid'' then ''buy''
                  else if your_action = JStr ''ask'' then ''sell''
                  else ''unknown'') \<and>
               TradeExecution.market_role x =
                 (if your_action = JStr ''both'' then ''both''
                  else if your_action = JStr ''bid''
                    then (if action = JStr ''bid'' then ''taker''
                          else if action = JStr ''ask'' then ''maker'' else ''unknown'')
                  else if your_action = JStr ''ask''
                    then (if action = JStr ''ask'' then ''taker''
                          else if action = JStr ''bid'' then ''maker'' else ''unknown'')
                  else ''unknown''))"
proof -
  from assms(1) obtain xs ws where loop: "trade_loop L kvs = (Inr xs, ws)"
    and r: "r = \<lparr>TradeExecutionList.executions = xs\<rparr>"
    by (auto simp: TradeExecutionList_from_dict_def py_items_def split: prod.splits sum.splits)
  from assms(2) r have "x \<in> set xs" by simp
  from trade_loop_mem [OF loop this] obtain k item where
    mem: "(k, JDict item) \<in> set kvs" and p: "parse_trade_item L k item = Inr x"
    by blast
  have "TradeExecution.trade_side x = trade_side_of (dict_get item ''your_action'' (JStr []))"
    and "TradeExecution.market_role x =
           market_role_of (dict_get item ''action'' (JStr [])) (dict_get item ''your_action'' (JStr []))"
    using parse_trade_item_sides [OF p] by simp_all
  then have "(let your_action = dict_get item ''your_action'' (JStr []);
                action = dict_get item ''action'' (JStr [])
            in TradeExecution.trade_side x =
                 (if your_action = JStr ''both'' then ''self''
                  else if your_action = JStr ''bid'' then ''buy''
                  else if your_action = JStr ''ask'' then ''sell''
                  else ''unknown'') \<and>
               TradeExecution.market_role x =
                 (if your_action = JStr ''both'' then ''both''
                  else if your_action = JStr ''bid''
                    then (if action = JStr ''bid'' then ''taker''
                          else if action = JStr ''ask'' then ''maker'' else ''unknown'')
                  else if your_action = JStr ''ask''
                    then (if action = JStr ''ask'' then ''taker''
                          else if action = JStr ''bid'' then ''maker'' else ''unknown'')
                  else ''unknown''))"
    by (simp add: trade_side_of_def market_role_of_def Let_def)
  with mem p show ?thesis by blast
qed

theorem C1_side_and_role_table_witness:
  "\<exists>trade_id item.
     (trade_id, JDict item) \<in> set [(''7'', JDict [(''your_action'', JStr ''ask''), (''action'', JStr ''bid'')])] \<and>
     parse_trade_item stub_lib trade_id item =
       Inr \<lparr>execution_id = 7, currency_pair = JStr [], trade_side = ''sell'',
            price = Decimal False 0 0, quantity = Decimal False 0 0,
            fee_amount = Decimal False 0 0, market_role = ''maker'', execution_time = None\<rparr> \<and>
     dict_get item ''your_action'' (JStr []) = JStr ''ask'' \<and>
     dict_get item ''action'' (JStr []) = JStr ''bid''"
proof -
  let ?x = "\<lparr>execution_id = 7, currency_pair = JStr [], trade_side = ''sell'',
             price = Decimal False 0 0, quantity = Decimal False 0 0,
             fee_amount = Decimal False 0 0, market_role = ''maker'', execution_time = None\<rparr>"
  let ?kvs = "[(''7'', JDict [(''your_action'', JStr ''ask''), (''action'', JStr ''bid'')])]"
  have run: "fst (TradeExecutionList_from_dict stub_lib (JDict ?kvs)) =
               Inr \<lparr>TradeExecutionList.executions = [?x]\<rparr>"
    by (simp add: TradeExecutionList_from_dict_def parse_trade_item_def
        trade_execution_time_def trade_side_of_def market_role_of_def py_eval)
  have mem: "?x \<in> set (TradeExecutionList.executions \<lparr>TradeExecutionList.executions = [?x]\<rparr>)"
    by simp
  from C1_side_and_role_table [OF run mem] show ?thesis
    by (auto simp: dict_get_def)
qed

text \<open>
  The claim as the specification words it gives maker for \<open>your_action = bid\<close> whenever
  \<open>action\<close> is not \<open>bid\<close>. For an entry without \<open>action\<close> the code gives unknown.
\<close>

theorem C1_missing_action_counterexample:
  "fst (TradeExecutionList_from_dict stub_lib
          (JDict [(''7'', JDict [(''currency_pair'', JStr ''btc_jpy''),
                                 (''your_action'', JStr ''bid''),
                                 (''price'', JInt 100), (''amount'', JStr ''0.5'')])])) =
     Inr \<lparr>executions =
            [\<lparr>execution_id = 7, currency_pair = JStr ''btc_jpy'', trade_side = ''buy'',
              price = Decimal False 100 0, quantity = Decimal False 5 (- 1),
              fee_amount = Decimal False 0 0, market_role = ''unknown'',
              execution_time = None\<rparr>]\<rparr> \<and>
   ''unknown'' \<noteq> ''maker''"
  by (simp add: TradeExecutionList_from_dict_def parse_trade_item_def
      trade_execution_time_def trade_side_of_def market_role_of_def py_eval)

subsection \<open>One bad entry in a keyed collection\<close>

text \<open>
  What the handler of an entry does catch: an entry whose timestamp is not a number is
  left out with a warning, an entry that is not a dict is left out without one, and the
  entry after them is returned.
\<close>

lemma deposit_entries_that_are_skipped:
  "DepositRecords_from_dict L
     (JDict [(''1'', JDict [(''timestamp'', JStr ''abc''), (''amount'', JStr ''3'')]),
             (''note'', JStr ''not a mapping''),
             (''2'', JDict [(''timestamp'', JInt 1700000001), (''amount'', JStr ''1.5'')])]) =
     (Inr \<lparr>DepositRecords.items =
             [\<lparr>DepositHistoryItem.id = 2, timestamp = 1700000001, address = JStr [],
               amount = Decimal False 15 (- 1), txid = JStr []\<rparr>]\<rparr>,
      [(''1'', ValueError (Invalid_literal ''abc''))])"
  by (simp add: DepositRecords_from_dict_def parse_deposit_item_def history_timestamp_def py_eval)

text \<open>
  Claim C3 at five inputs, each a mapping of two entries of which the second is well
  formed. An amount, a fee or a price that is not a number ends \<open>from_dict\<close> of the
  deposits, the withdrawals and the trade executions with the decimal module's
  \<open>InvalidOperation\<close>, which the handler of the entry does not catch. The loop of
  \<open>OpenOrderList.from_dict\<close> has neither the check for a dict nor a handler: an entry
  that is not a dict ends it with \<open>AttributeError\<close>, a price that is not a number with
  \<open>InvalidOperation\<close>.
\<close>

theorem C3_one_bad_entry_ends_the_parse:
  "fst (DepositRecords_from_dict L
          (JDict [(''1'', JDict [(''timestamp'', JInt 1700000000), (''amount'', JStr ''abc'')]),
                  (''2'', JDict [(''timestamp'', JInt 1700000001), (''amount'', JStr ''1.5'')])])) =
     Inl InvalidOperation \<and>
   fst (WithdrawalRecords_from_dict L
          (JDict [(''1'', JDict [(''amount'', JStr ''2''), (''fee'', JStr ''n/a'')]),
                  (''2'', JDict [(''amount'', JStr ''1.5''), (''fee'', JStr ''0.1'')])])) =
     Inl InvalidOperation \<and>
   fst (TradeExecutionList_from_dict L
          (JDict [(''1'', JDict [(''your_action'', JStr ''bid''), (''price'', JStr ''abc'')]),
                  (''2'', JDict [(''your_action'', JStr ''bid''), (''price'', JStr ''1.5'')])])) =
     Inl InvalidOperation \<and>
   OpenOrderList_from_dict L
     (JDict [(''1'', JStr ''oops''),
             (''2'', JDict [(''currency_pair'', JStr ''btc_jpy''), (''price'', JStr ''1.5'')])]) =
     Inl AttributeError \<and>
   OpenOrderList_from_dict L
     (JDict [(''1'', JDict [(''currency_pair'', JStr ''btc_jpy''), (''price'', JStr ''abc'')]),
             (''2'', JDict [(''currency_pair'', JStr ''btc_jpy''), (''price'', JStr ''1.5'')])]) =
     Inl InvalidOperation"
  by (simp add: DepositRecords_from_dict_def parse_deposit_item_def history_timestamp_def
      WithdrawalRecords_from_dict_def parse_withdraw_item_def
      TradeExecutionList_from_dict_def parse_trade_item_def trade_execution_time_def
      OpenOrderList_from_dict_def OpenOrder_of_def py_eval)

subsection \<open>The guard for missing credentials\<close>

lemma ZaifApi_init_without_credentials:
  "\<not> (truthy_str key \<and> truthy_str secret) \<Longrightarrow>
     auth_provider (http (ZaifApi_init key secret market_url trade_url chart_url)) = None"
  by (simp add: ZaifApi_init_def)

lemma post_without_provider:
  "auth_provider self = None \<Longrightarrow>
     post L X self url params headers w = (Inl (ValueError Auth_not_configured_env), w)"
  by (simp add: post_def)

lemma convert_Inl:
  "call w = (Inl e, w') \<Longrightarrow> convert call from_dict w = (Inl e, w')"
  by (simp add: convert_def)

lemma convert_printing_Inl:
  "call w = (Inl e, w') \<Longrightarrow> convert_printing call from_dict w = (Inl e, w')"
  by (simp add: convert_printing_def)

text \<open>
  Claim C4. Without an authentication provider, \<open>HttpClient.post\<close>, the eight
  operations of the account and the trade part, and the five tool handlers that wrap
  them each raise the ValueError that says the credentials are not configured, and the
  world is as it was before the call: no POST was sent and the clock was not read.
\<close>

theorem C4_unauthenticated_before_transport:
  assumes "auth_provider (http api) = None"
  shows "post L X (http api) url params headers w = (Inl (ValueError Auth_not_configured_env), w) \<and>
         get_info L X api w = (Inl (ValueError Auth_not_configured_env), w) \<and>
         get_personal_info L X api w = (Inl (ValueError Auth_not_configured_env), w) \<and>
         get_deposit_history L X api currency count from_ts end_ts w =
           (Inl (ValueError Auth_not_configured_env), w) \<and>
         get_withdraw_history L X api currency count from_ts end_ts w =
           (Inl (ValueError Auth_not_configured_env), w) \<and>
         open_order L X api pair action p a w = (Inl (ValueError Auth_not_configured_env), w) \<and>
         api_cancel_order L X api oid cp is_token w = (Inl (ValueError Auth_not_configured_env), w) \<and>
         get_active_orders L X api cp w = (Inl (ValueError Auth_not_configured_env), w) \<and>
         get_trade_history L X api cp count from_ts end_ts w =
           (Inl (ValueError Auth_not_configured_env), w) \<and>
         get_account_balance L X api w = (Inl (ValueError Auth_not_configured_dotenv), w) \<and>
         place_order L X api pair side fp fq w = (Inl (ValueError Auth_not_configured_dotenv), w) \<and>
         cancel_order L X api oid cp w = (Inl (ValueError Auth_not_configured_dotenv), w) \<and>
         get_open_orders L X api cp w = (Inl (ValueError Auth_not_configured_dotenv), w) \<and>
         get_trade_executions L X api cp limit sd ed w =
           (Inl (ValueError Auth_not_configured_dotenv), w)"
proof -
  note p = post_without_provider [OF assms]
  have facade:
    "get_info L X api w = (Inl (ValueError Auth_not_configured_env), w)"
    "get_personal_info L X api w = (Inl (ValueError Auth_not_configured_env), w)"
    "get_deposit_history L X api currency count from_ts end_ts w =
       (Inl (ValueError Auth_not_configured_env), w)"
    "get_withdraw_history L X api currency count from_ts end_ts w =
       (Inl (ValueError Auth_not_configured_env), w)"
    "open_order L X api pair action p a w = (Inl (ValueError Auth_not_configured_env), w)"
    "api_cancel_order L X api oid cp is_token w = (Inl (ValueError Auth_not_configured_env), w)"
    "get_active_orders L X api cp w = (Inl (ValueError Auth_not_configured_env), w)"
    "get_trade_history L X api cp count from_ts end_ts w =
       (Inl (ValueError Auth_not_configured_env), w)"
    by (simp_all add: get_info_def get_personal_info_def get_deposit_history_def
        get_withdraw_history_def open_order_def api_cancel_order_def get_active_orders_def
        get_trade_history_def convert_Inl convert_printing_Inl p)
  have tools:
    "get_account_balance L X api w = (Inl (ValueError Auth_not_configured_dotenv), w)"
    "place_order L X api pair side fp fq w = (Inl (ValueError Auth_not_configured_dotenv), w)"
    "cancel_order L X api oid cp w = (Inl (ValueError Auth_not_configured_dotenv), w)"
    "get_open_orders L X api cp w = (Inl (ValueError Auth_not_configured_dotenv), w)"
    "get_trade_executions L X api cp limit sd ed w =
       (Inl (ValueError Auth_not_configured_dotenv), w)"
    using assms
    by (simp_all add: get_account_balance_def place_order_def cancel_order_def
        get_open_orders_def get_trade_executions_def)
  from p facade tools show ?thesis by simp
qed

theorem C4_unauthenticated_before_transport_witness:
  "auth_provider (http stub_api_no_credentials) = None \<and>
   place_order stub_lib (stub_exchange JNone) stub_api_no_credentials ''btc_jpy'' ''bid'' 100 1 fresh_world =
     (Inl (ValueError Auth_not_configured_dotenv), fresh_world) \<and>
   get_info stub_lib (stub_exchange JNone) stub_api_no_credentials fresh_world =
     (Inl (ValueError Auth_not_configured_env), fresh_world) \<and>
   posts_sent fresh_world = []"
proof -
  have h: "auth_provider (http stub_api_no_credentials) = None"
    by (simp add: stub_api_no_credentials_def ZaifApi_init_def truthy_str_def)
  from C4_unauthenticated_before_transport [OF h, of stub_lib "stub_exchange JNone" _ _ _ fresh_world]
  show ?thesis using h by (simp add: fresh_world_def)
qed

subsection \<open>The allow-list of get_trade_executions\<close>

text \<open>
  Claim C9. With credentials configured, \<open>get_trade_executions\<close> for a currency pair
  outside btc_jpy, eth_jpy and xym_jpy raises the ValueError for an unsupported pair,
  and the world is as it was before the call: no POST was sent.
\<close>

theorem C9_unsupported_pair_rejected_before_transport:
  assumes "auth_provider (http api) = Some provider"
    and "p \<notin> {''btc_jpy'', ''eth_jpy'', ''xym_jpy''}"
  shows "get_trade_executions L X api (Some p) limit sd ed w =
           (Inl (ValueError (Unsupported_pair p)), w)"
  using assms by (simp add: get_trade_executions_def supported_pairs_def)

theorem C9_unsupported_pair_rejected_before_transport_witness:
  "(\<exists>provider. auth_provider (http stub_api) = Some provider) \<and>
   ''doge_jpy'' \<notin> {''btc_jpy'', ''eth_jpy'', ''xym_jpy''} \<and>
   get_trade_executions stub_lib (stub_exchange JNone) stub_api (Some ''doge_jpy'') 20 [] [] fresh_world =
     (Inl (ValueError (Unsupported_pair ''doge_jpy'')), fresh_world) \<and>
   posts_sent fresh_world = []"
proof -
  have h: "auth_provider (http stub_api) = Some \<lparr>api_key = ''key'', api_secret = ''secret''\<rparr>"
    by (simp add: stub_api_def ZaifApi_init_def truthy_str_def)
  have n: "''doge_jpy'' \<notin> {''btc_jpy'', ''eth_jpy'', ''xym_jpy''}" by simp
  from C9_unsupported_pair_rejected_before_transport [OF h n, of stub_lib "stub_exchange JNone" 20 "[]" "[]" fresh_world]
  show ?thesis using h n by (simp add: fresh_world_def)
qed

subsection \<open>The count of a price chart\<close>

lemma from_dict_data_count:
  assumes "PriceChartData_from_dict L data cp tf sd ed = Inr r"
  shows "\<exists>d. data = JDict d \<and> py_int (dict_get d ''data_count'' (JInt 0)) = Inr (PriceChartData.data_count r)"
  using assms
  by (cases data) (auto simp: PriceChartData_from_dict_def py_get_def and_then_Inr_iff)

lemma example_candle_parsed:
  "Candlesticks stub_lib [example_candle] = Inr [example_candlestick]"
  by (simp add: example_candle_def example_candlestick_def Candlestick_of_def stub_lib_def py_eval)

lemma from_dict_count_absent:
  assumes "py_iter (dict_get d ''ohlc_data'' (JList [])) = Inr rows"
    and "Candlesticks L rows = Inr cs"
    and "map_of d ''data_count'' = None"
  shows "PriceChartData_from_dict L (JDict d) cp tf sd ed =
     Inr \<lparr>PriceChartData.currency_pair = cp, PriceChartData.timeframe = timeframe_display tf,
          PriceChartData.start_date = sd, PriceChartData.end_date = ed,
          PriceChartData.candlesticks = cs, PriceChartData.data_count = 0\<rparr>"
  using assms by (simp add: PriceChartData_from_dict_def py_get_def dict_get_def py_int_def)

lemma from_dict_count_present:
  assumes "py_iter (dict_get d ''ohlc_data'' (JList [])) = Inr rows"
    and "Candlesticks L rows = Inr cs"
    and "map_of d ''data_count'' = Some v"
    and "py_int v = Inr n"
  shows "PriceChartData_from_dict L (JDict d) cp tf sd ed =
     Inr \<lparr>PriceChartData.currency_pair = cp, PriceChartData.timeframe = timeframe_display tf,
          PriceChartData.start_date = sd, PriceChartData.end_date = ed,
          PriceChartData.candlesticks = cs, PriceChartData.data_count = n\<rparr>"
  using assms by (simp add: PriceChartData_from_dict_def py_get_def dict_get_def)

lemma from_dict_count_not_an_int:
  assumes "py_iter (dict_get d ''ohlc_data'' (JList [])) = Inr rows"
    and "Candlesticks L rows = Inr cs"
    and "map_of d ''data_count'' = Some v"
    and "py_int v = Inl e"
  shows "PriceChartData_from_dict L (JDict d) cp tf sd ed = Inl e"
  using assms by (simp add: PriceChartData_from_dict_def py_get_def dict_get_def)

text \<open>
  Claim C10. \<open>PriceChartData.from_dict\<close> takes \<open>data_count\<close> from the response and not
  from the candles. For a response whose candles parse to any list \<open>cs\<close>:
  \<^item> without a \<open>data_count\<close> field, \<open>from_dict\<close> returns, with the candles \<open>cs\<close> and
    the count 0;
  \<^item> with a \<open>data_count\<close> field whose \<open>int\<close> is \<open>n\<close>, it returns, with the candles
    \<open>cs\<close> and the count \<open>n\<close>.

  Conversely, whenever \<open>from_dict\<close> returns, the response is a dict and the count is
  \<open>int\<close> of its \<open>data_count\<close> field, of 0 when the field is absent. The count and the
  number of candles differ on the response with one candle and no \<open>data_count\<close> field
  (count 0) and on the response with one candle and the field \<open>'7'\<close> (count 7).
\<close>

theorem C10_data_count_is_the_response_field:
  "(py_iter (dict_get d ''ohlc_data'' (JList [])) = Inr rows \<and> Candlesticks L rows = Inr cs \<longrightarrow>
      (map_of d ''data_count'' = None \<longrightarrow>
         PriceChartData_from_dict L (JDict d) cp tf sd ed =
           Inr \<lparr>PriceChartData.currency_pair = cp, PriceChartData.timeframe = timeframe_display tf,
                PriceChartData.start_date = sd, PriceChartData.end_date = ed,
                PriceChartData.candlesticks = cs, PriceChartData.data_count = 0\<rparr>) \<and>
      (\<forall>v n. map_of d ''data_count'' = Some v \<and> py_int v = Inr n \<longrightarrow>
         PriceChartData_from_dict L (JDict d) cp tf sd ed =
           Inr \<lparr>PriceChartData.currency_pair = cp, PriceChartData.timeframe = timeframe_display tf,
                PriceChartData.start_date = sd, PriceChartData.end_date = ed,
                PriceChartData.candlesticks = cs, PriceChartData.data_count = n\<rparr>)) \<and>
   (PriceChartData_from_dict L data cp tf sd ed = Inr r \<longrightarrow>
      (\<exists>d'. data = JDict d' \<and>
            py_int (dict_get d' ''data_count'' (JInt 0)) = Inr (PriceChartData.data_count r))) \<and>
   PriceChartData_from_dict stub_lib (JDict chart_without_count) cp tf sd ed =
      Inr \<lparr>PriceChartData.currency_pair = cp, PriceChartData.timeframe = timeframe_display tf,
           PriceChartData.start_date = sd, PriceChartData.end_date = ed,
           PriceChartData.candlesticks = [example_candlestick], PriceChartData.data_count = 0\<rparr> \<and>
   PriceChartData_from_dict stub_lib (JDict chart_with_count) cp tf sd ed =
      Inr \<lparr>PriceChartData.currency_pair = cp, PriceChartData.timeframe = timeframe_display tf,
           PriceChartData.start_date = sd, PriceChartData.end_date = ed,
           PriceChartData.candlesticks = [example_candlestick], PriceChartData.data_count = 7\<rparr>"
proof (intro conjI impI allI)
  assume "py_iter (dict_get d ''ohlc_data'' (JList [])) = Inr rows \<and> Candlesticks L rows = Inr cs"
    and "map_of d ''data_count'' = None"
  then show "PriceChartData_from_dict L (JDict d) cp tf sd ed =
           Inr \<lparr>PriceChartData.currency_pair = cp, PriceChartData.timeframe = timeframe_display tf,
                PriceChartData.start_date = sd, PriceChartData.end_date = ed,
                PriceChartData.candlesticks = cs, PriceChartData.data_count = 0\<rparr>"
    by (simp add: from_dict_count_absent)
next
  fix v n
  assume "py_iter (dict_get d ''ohlc_data'' (JList [])) = Inr rows \<and> Candlesticks L rows = Inr cs"
    and "map_of d ''data_count'' = Some v \<and> py_int v = Inr n"
  then show "PriceChartData_from_dict L (JDict d) cp tf sd ed =
           Inr \<lparr>PriceChartData.currency_pair = cp, PriceChartData.timeframe = timeframe_display tf,
                PriceChartData.start_date = sd, PriceChartData.end_date = ed,
                PriceChartData.candlesticks = cs, PriceChartData.data_count = n\<rparr>"
    by (simp add: from_dict_count_present)
next
  assume "PriceChartData_from_dict L data cp tf sd ed = Inr r"
  then show "\<exists>d'. data = JDict d' \<and>
            py_int (dict_get d' ''data_count'' (JInt 0)) = Inr (PriceChartData.data_count r)"
    by (rule from_dict_data_count)
next
  have it: "py_iter (dict_get chart_without_count ''ohlc_data'' (JList [])) = Inr [example_candle]"
    by (simp add: chart_without_count_def dict_get_def py_iter_def)
  have no: "map_of chart_without_count ''data_count'' = None"
    by (simp add: chart_without_count_def)
  show "PriceChartData_from_dict stub_lib (JDict chart_without_count) cp tf sd ed =
      Inr \<lparr>PriceChartData.currency_pair = cp, PriceChartData.timeframe = timeframe_display tf,
           PriceChartData.start_date = sd, PriceChartData.end_date = ed,
           PriceChartData.candlesticks = [example_candlestick], PriceChartData.data_count = 0\<rparr>"
    by (rule from_dict_count_absent [OF it example_candle_parsed no])
next
  have it: "py_iter (dict_get chart_with_count ''ohlc_data'' (JList [])) = Inr [example_candle]"
    by (simp add: chart_with_count_def dict_get_def py_iter_def)
  have yes: "map_of chart_with_count ''data_count'' = Some (JStr ''7'')"
    by (simp add: chart_with_count_def)
  have seven: "py_int (JStr ''7'') = Inr 7"
    by (simp add: py_eval)
  show "PriceChartData_from_dict stub_lib (JDict chart_with_count) cp tf sd ed =
      Inr \<lparr>PriceChartData.currency_pair = cp, PriceChartData.timeframe = timeframe_display tf,
           PriceChartData.start_date = sd, PriceChartData.end_date = ed,
           PriceChartData.candlesticks = [example_candlestick], PriceChartData.data_count = 7\<rparr>"
    by (rule from_dict_count_present [OF it example_candle_parsed yes seven])
qed

theorem C10_data_count_is_the_response_field_witness:
  "PriceChartData_from_dict stub_lib (JDict chart_without_count) ''btc_jpy'' ''60'' ''a'' ''b'' =
     Inr \<lparr>PriceChartData.currency_pair = ''btc_jpy'', PriceChartData.timeframe = ''1'' @ label_hour @ label_end,
          PriceChartData.start_date = ''a'', PriceChartData.end_date = ''b'',
          PriceChartData.candlesticks = [example_candlestick], PriceChartData.data_count = 0\<rparr> \<and>
   PriceChartData_from_dict stub_lib (JDict chart_with_count) ''btc_jpy'' ''60'' ''a'' ''b'' =
     Inr \<lparr>PriceChartData.currency_pair = ''btc_jpy'', PriceChartData.timeframe = ''1'' @ label_hour @ label_end,
          PriceChartData.start_date = ''a'', PriceChartData.end_date = ''b'',
          PriceChartData.candlesticks = [example_candlestick], PriceChartData.data_count = 7\<rparr> \<and>
   py_int (dict_get chart_with_count ''data_count'' (JInt 0)) = Inr 7 \<and>
   length [example_candlestick] = 1"
proof -
  have it0: "py_iter (dict_get chart_without_count ''ohlc_data'' (JList [])) = Inr [example_candle]"
    by (simp add: chart_without_count_def dict_get_def py_iter_def)
  have no: "map_of chart_without_count ''data_count'' = None"
    by (simp add: chart_without_count_def)
  have it7: "py_iter (dict_get chart_with_count ''ohlc_data'' (JList [])) = Inr [example_candle]"
    by (simp add: chart_with_count_def dict_get_def py_iter_def)
  have yes: "map_of chart_with_count ''data_count'' = Some (JStr ''7'')"
    by (simp add: chart_with_count_def)
  have seven: "py_int (JStr ''7'') = Inr 7"
    by (simp add: py_eval)
  have absent: "PriceChartData_from_dict stub_lib (JDict chart_without_count) ''btc_jpy'' ''60'' ''a'' ''b'' =
     Inr \<lparr>PriceChartData.currency_pair = ''btc_jpy'', PriceChartData.timeframe = timeframe_display ''60'',
          PriceChartData.start_date = ''a'', PriceChartData.end_date = ''b'',
          PriceChartData.candlesticks = [example_candlestick], PriceChartData.data_count = 0\<rparr>"
    using C10_data_count_is_the_response_field
      [where d = chart_without_count and rows = "[example_candle]" and L = stub_lib
         and cs = "[example_candlestick]" and cp = "''btc_jpy''" and tf = "''60''"
         and sd = "''a''" and ed = "''b''"]
      it0 example_candle_parsed no
    by blast
  have present: "PriceChartData_from_dict stub_lib (JDict chart_with_count) ''btc_jpy'' ''60'' ''a'' ''b'' =
     Inr \<lparr>PriceChartData.currency_pair = ''btc_jpy'', PriceChartData.timeframe = timeframe_display ''60'',
          PriceChartData.start_date = ''a'', PriceChartData.end_date = ''b'',
          PriceChartData.candlesticks = [example_candlestick], PriceChartData.data_count = 7\<rparr>"
    using C10_data_count_is_the_response_field
      [where d = chart_with_count and rows = "[example_candle]" and L = stub_lib
         and cs = "[example_candlestick]" and cp = "''btc_jpy''" and tf = "''60''"
         and sd = "''a''" and ed = "''b''"]
      it7 example_candle_parsed yes seven
    by blast
  have field7: "py_int (dict_get chart_with_count ''data_count'' (JInt 0)) = Inr 7"
    using C10_data_count_is_the_response_field
      [where L = stub_lib and data = "JDict chart_with_count" and cp = "''btc_jpy''"
         and tf = "''60''" and sd = "''a''" and ed = "''b''"
         and r = "\<lparr>PriceChartData.currency_pair = ''btc_jpy'', PriceChartData.timeframe = timeframe_display ''60'',
          PriceChartData.start_date = ''a'', PriceChartData.end_date = ''b'',
          PriceChartData.candlesticks = [example_candlestick], PriceChartData.data_count = 7\<rparr>"]
      present
    by auto
  have tf: "timeframe_display ''60'' = ''1'' @ label_hour @ label_end"
    by (simp add: timeframe_display_def timeframe_names_def)
  show ?thesis using absent present field7 tf by simp
qed

subsection \<open>Round trips through to_dict and from_dict\<close>

lemma Decimal_of_str_value [simp]: "Decimal_of L (JStr (Decimal_str d)) = Inr d"
  by (simp add: Decimal_of_def py_str_def Decimal_str_roundtrip)

lemma Decimal_dict_str_dict:
  "Decimal_dict L (map (\<lambda>kv. (fst kv, JStr (Decimal_str (snd kv)))) bs) = Inr bs"
  by (induction bs) auto

lemma OrderBookItem_roundtrip: "OrderBookItem_of L (OrderBookItem_to_list x) = Inr x"
  by (simp add: OrderBookItem_of_def OrderBookItem_to_list_def py_index_def)

lemma OrderBookItems_roundtrip: "OrderBookItems L (map OrderBookItem_to_list xs) = Inr xs"
  by (induction xs) (simp_all add: OrderBookItem_roundtrip)

lemma Ticker_roundtrip: "Ticker_from_dict L (Ticker_to_dict t) = Inr t"
  by (simp add: Ticker_from_dict_def Ticker_to_dict_def Decimal_item_def py_getitem_def)

lemma OrderBook_roundtrip: "OrderBook_from_dict L (OrderBook_to_dict b) = Inr b"
  by (simp add: OrderBook_from_dict_def OrderBook_to_dict_def py_get_def dict_get_def py_iter_def
      OrderBookItems_roundtrip)

lemma AccountBalance_roundtrip: "AccountBalance_from_dict L (AccountBalance_to_dict a) = Inr a"
  by (simp add: AccountBalance_from_dict_def AccountBalance_to_dict_def py_get_def dict_get_def
      py_items_def str_dict_def Decimal_dict_str_dict)

lemma OrderResponse_roundtrip: "OrderResponse_from_dict L (OrderResponse_to_dict r) = Inr r"
  by (simp add: OrderResponse_from_dict_def OrderResponse_to_dict_def py_get_def dict_get_def
      py_items_def str_dict_def Decimal_dict_str_dict Decimal_get_def py_int_def)

lemma CancelOrderResponse_roundtrip:
  "CancelOrderResponse_from_dict L (CancelOrderResponse_to_dict r) = Inr r"
  by (simp add: CancelOrderResponse_from_dict_def CancelOrderResponse_to_dict_def py_get_def
      dict_get_def py_items_def str_dict_def Decimal_dict_str_dict py_int_def)

text \<open>
  Claim C2, as the code has it. For \<open>Ticker\<close>, \<open>OrderBook\<close>, \<open>AccountBalance\<close>,
  \<open>OrderResponse\<close> and \<open>CancelOrderResponse\<close>, \<open>from_dict\<close> of \<open>to_dict\<close> of a
  record is that record, for every record (with finite decimals).
\<close>

theorem C2_roundtrip_where_to_dict_feeds_from_dict:
  "Ticker_from_dict L (Ticker_to_dict t) = Inr t \<and>
   OrderBook_from_dict L (OrderBook_to_dict b) = Inr b \<and>
   AccountBalance_from_dict L (AccountBalance_to_dict a) = Inr a \<and>
   OrderResponse_from_dict L (OrderResponse_to_dict r) = Inr r \<and>
   CancelOrderResponse_from_dict L (CancelOrderResponse_to_dict c) = Inr c"
  by (simp add: Ticker_roundtrip OrderBook_roundtrip AccountBalance_roundtrip
      OrderResponse_roundtrip CancelOrderResponse_roundtrip)

text \<open>
  The other record types do not come back: \<open>CurrencyPair.to_dict\<close> writes the
  record's own field names, which \<open>from_dict\<close> does not read, and the keyed collections
  are written as a list, which \<open>from_dict\<close> cannot iterate as a dict.
\<close>

lemma CurrencyPair_roundtrip_raises:
  "CurrencyPair_from_dict L (CurrencyPair_to_dict x) = Inl (KeyError ''item_japanese'')"
  by (simp add: CurrencyPair_from_dict_def CurrencyPair_to_dict_def py_getitem_def)

lemma keyed_collections_roundtrip_raises:
  "DepositRecords_from_dict L (DepositRecords_to_dict d) = (Inl AttributeError, [])"
  "WithdrawalRecords_from_dict L (WithdrawalRecords_to_dict wd) = (Inl AttributeError, [])"
  "TradeExecutionList_from_dict L (TradeExecutionList_to_dict l) = (Inl AttributeError, [])"
  by (simp_all add: DepositRecords_from_dict_def DepositRecords_to_dict_def
      WithdrawalRecords_from_dict_def WithdrawalRecords_to_dict_def
      TradeExecutionList_from_dict_def TradeExecutionList_to_dict_def py_items_def)

text \<open>
  The claim as the specification words it, for every record type, fails on a
  \<open>CurrencyPair\<close>: \<open>from_dict\<close> of its \<open>to_dict\<close> raises \<open>KeyError\<close>.
\<close>

theorem C2_CurrencyPair_counterexample:
  "CurrencyPair_from_dict stub_lib
     (CurrencyPair_to_dict
        \<lparr>CurrencyPair.currency_pair = JStr ''btc_jpy'', min_quantity = Decimal False 1 (- 4),
         quantity_step = Decimal False 1 (- 4), min_price = Decimal False 5 0,
         price_step = Decimal False 5 0, price_precision = 0,
         display_name = ''BTC/JPY''\<rparr>) = Inl (KeyError ''item_japanese'') \<and>
   Inl (KeyError ''item_japanese'') \<noteq>
     (Inr \<lparr>CurrencyPair.currency_pair = JStr ''btc_jpy'', min_quantity = Decimal False 1 (- 4),
          quantity_step = Decimal False 1 (- 4), min_price = Decimal False 5 0,
          price_step = Decimal False 5 0, price_precision = 0,
          display_name = ''BTC/JPY''\<rparr> :: pyexn + CurrencyPair)"
  by (simp add: CurrencyPair_from_dict_def CurrencyPair_to_dict_def py_getitem_def)

subsection \<open>The nonce\<close>

lemma str_of_int_split: "str_of_int s = (if s < 0 then ''-'' else []) @ str_of_nat (nat \<bar>s\<bar>)"
  by (simp add: str_of_int_def)

lemma format_06d_digits: "list_all is_digit (format_06d u)"
  using str_of_nat_digits [of u] by (auto simp: format_06d_def list_all_iff is_digit_zero)

lemma format_06d_not_Nil: "format_06d u \<noteq> []"
  by (simp add: format_06d_def str_of_nat_not_Nil)

lemma nat_of_digits_format_06d: "nat_of_digits (format_06d u) = u"
  by (simp add: format_06d_def nat_of_digits_leading_zeros nat_of_digits_str_of_nat)

lemma length_format_06d: "u < 10 ^ 6 \<Longrightarrow> length (format_06d u) = 6"
  using length_str_of_nat [of 6 u] by (simp add: format_06d_def)

lemma generate_eq:
  "generate (s, u) =
     Inr (Decimal (s < 0) (nat \<bar>s\<bar> * 10 ^ length (format_06d u) + u) (- int (length (format_06d u))))"
proof -
  have "generate (s, u) =
          Decimal_of_str ((if s < 0 then ''-'' else []) @ str_of_nat (nat \<bar>s\<bar>) @
            (if format_06d u = [] then [] else CHR ''.'' # format_06d u) @ [])"
    by (simp add: generate_def str_of_int_split format_06d_not_Nil)
  also have "\<dots> = Inr (Decimal (s < 0) (nat_of_digits (str_of_nat (nat \<bar>s\<bar>) @ format_06d u))
                        (0 - int (length (format_06d u))))"
    by (rule Decimal_of_str_canonical)
      (simp_all add: str_of_nat_digits str_of_nat_not_Nil format_06d_digits)
  finally show ?thesis
    by (simp add: nat_of_digits_append nat_of_digits_str_of_nat nat_of_digits_format_06d)
qed

lemma generate_now:
  assumes "0 \<le> s" "u < 10 ^ 6"
  shows "generate (s, u) = Inr (Decimal False (nat s * 10 ^ 6 + u) (- 6))"
  using assms by (simp add: generate_eq length_format_06d)

lemma decimal_less_micro:
  "decimal_less (Decimal False a (- 6)) (Decimal False b (- 6)) \<longleftrightarrow> a < b"
  by (simp add: decimal_less_def decimal_value_def divide_less_cancel)

text \<open>
  Claim C6. Let \<open>rs\<close> be the clock readings of a sequence of calls of
  \<open>NonceGenerator.generate\<close>, each a number of seconds that is not negative and a
  number of microseconds below \<open>10^6\<close>. If the times, counted in microseconds, never
  decrease from one call to the next and are never equal, then every call returns a
  decimal and each is strictly greater than the one before.
\<close>

theorem C6_nonce_strictly_increasing:
  assumes range: "\<forall>i < length rs. 0 \<le> fst (rs ! i) \<and> snd (rs ! i) < 10 ^ 6"
    and nondecreasing: "\<forall>i. Suc i < length rs \<longrightarrow>
          fst (rs ! i) * 10 ^ 6 + int (snd (rs ! i)) \<le> fst (rs ! Suc i) * 10 ^ 6 + int (snd (rs ! Suc i))"
    and distinct_ticks: "\<forall>i. Suc i < length rs \<longrightarrow>
          fst (rs ! i) * 10 ^ 6 + int (snd (rs ! i)) \<noteq> fst (rs ! Suc i) * 10 ^ 6 + int (snd (rs ! Suc i))"
  shows "\<forall>i. Suc i < length rs \<longrightarrow>
           (\<exists>a b. generate (rs ! i) = Inr a \<and> generate (rs ! Suc i) = Inr b \<and> decimal_less a b)"
proof (intro allI impI)
  fix i
  assume i: "Suc i < length rs"
  obtain s u where r1: "rs ! i = (s, u)" by (cases "rs ! i")
  obtain s' u' where r2: "rs ! Suc i = (s', u')" by (cases "rs ! Suc i")
  from range i r1 have b1: "0 \<le> s" "u < 10 ^ 6" by (auto dest: spec [of _ i])
  from range i r2 have b2: "0 \<le> s'" "u' < 10 ^ 6" by (auto dest: spec [of _ "Suc i"])
  from nondecreasing distinct_ticks i r1 r2
  have "s * 10 ^ 6 + int u < s' * 10 ^ 6 + int u'" by (auto dest!: spec [of _ i])
  with b1 b2 have "int (nat s * 10 ^ 6 + u) < int (nat s' * 10 ^ 6 + u')" by simp
  then have lt: "nat s * 10 ^ 6 + u < nat s' * 10 ^ 6 + u'" by linarith
  have "generate (rs ! i) = Inr (Decimal False (nat s * 10 ^ 6 + u) (- 6))"
    and "generate (rs ! Suc i) = Inr (Decimal False (nat s' * 10 ^ 6 + u') (- 6))"
    using b1 b2 by (simp_all add: r1 r2 generate_now)
  with lt show "\<exists>a b. generate (rs ! i) = Inr a \<and> generate (rs ! Suc i) = Inr b \<and> decimal_less a b"
    by (simp add: decimal_less_micro)
qed

theorem C6_nonce_strictly_increasing_witness:
  "(0::int) \<le> 1700000000 \<and> (999999::nat) < 10 ^ 6 \<and>
   (\<exists>a b. generate (1700000000, 999999) = Inr a \<and> generate (1700000001, 0) = Inr b \<and>
          decimal_less a b)"
proof -
  let ?rs = "[(1700000000, 999999), (1700000001, 0)] :: (int \<times> nat) list"
  have range: "\<forall>i < length ?rs. 0 \<le> fst (?rs ! i) \<and> snd (?rs ! i) < 10 ^ 6"
    by (auto simp: nth_Cons' less_Suc_eq)
  have nondecreasing: "\<forall>i. Suc i < length ?rs \<longrightarrow>
      fst (?rs ! i) * 10 ^ 6 + int (snd (?rs ! i)) \<le> fst (?rs ! Suc i) * 10 ^ 6 + int (snd (?rs ! Suc i))"
    by simp
  have distinct_ticks: "\<forall>i. Suc i < length ?rs \<longrightarrow>
      fst (?rs ! i) * 10 ^ 6 + int (snd (?rs ! i)) \<noteq> fst (?rs ! Suc i) * 10 ^ 6 + int (snd (?rs ! Suc i))"
    by simp
  from C6_nonce_strictly_increasing [OF range nondecreasing distinct_ticks]
  have "\<exists>a b. generate (?rs ! 0) = Inr a \<and> generate (?rs ! Suc 0) = Inr b \<and> decimal_less a b"
    by simp
  then show ?thesis by simp
qed

subsection \<open>The request signer and the caller's parameters\<close>

lemma generate_succeeds: "\<exists>nonce. generate reading = Inr nonce"
  by (cases reading) (simp add: generate_eq)

text \<open>
  Claim C7, as the code has it. \<open>get_auth_headers\<close> never raises. It returns the key
  and the signature of the encoded parameters with the nonce. The caller's mapping is
  not copied: when it is not empty, it holds the nonce under \<open>nonce\<close> after the call,
  and is otherwise as before; only when the argument is \<open>None\<close> or empty is the nonce
  put into a new mapping and the argument left as it was.
\<close>

theorem C7_nonce_goes_into_the_callers_mapping:
  "\<exists>nonce. generate reading = Inr nonce \<and>
     get_auth_headers L self reading params =
       Inr ([(''key'', api_key self),
             (''sign'', hmac_sha512_hexdigest L (api_secret self)
                (urlencode L (dict_set (case params of None \<Rightarrow> [] | Some d \<Rightarrow> d) ''nonce''
                   (JStr (Decimal_str nonce)))))],
            (case params of
               None \<Rightarrow> None
             | Some d \<Rightarrow> if d = [] then Some []
                         else Some (dict_set d ''nonce'' (JStr (Decimal_str nonce)))))"
proof -
  obtain nonce where n: "generate reading = Inr nonce"
    using generate_succeeds by blast
  show ?thesis
  proof (cases params)
    case None
    with n show ?thesis by (simp add: get_auth_headers_def truthy_dict_def Let_def)
  next
    case (Some d)
    with n show ?thesis by (cases "d = []") (simp_all add: get_auth_headers_def truthy_dict_def Let_def)
  qed
qed

lemma map_of_dict_set: "map_of (dict_set d k v) = (map_of d)(k \<mapsto> v)"
  by (induction d k v rule: dict_set.induct) (auto simp: fun_eq_iff)

text \<open>
  The claim as the specification words it says that the caller's mapping is unchanged.
  For the parameters of \<open>get_info\<close> it is changed: it has the nonce afterwards.
\<close>

theorem C7_caller_mapping_changed_counterexample:
  "get_auth_headers stub_lib \<lparr>api_key = ''key'', api_secret = ''secret''\<rparr> (1700000000, 123456)
     (Some [(''method'', JStr ''get_info'')]) =
     Inr ([(''key'', ''key''), (''sign'', ''00'')],
          Some [(''method'', JStr ''get_info''), (''nonce'', JStr ''1700000000.123456'')]) \<and>
   Some [(''method'', JStr ''get_info''), (''nonce'', JStr ''1700000000.123456'')] \<noteq>
     Some [(''method'', JStr ''get_info'')]"
  by (simp add: get_auth_headers_def truthy_dict_def generate_def format_06d_def
      Decimal_str_def stub_lib_def py_eval)

subsection \<open>The envelope of a signed call\<close>

lemma get_auth_headers_succeeds:
  "\<exists>hs after. get_auth_headers L self reading params = Inr (hs, after)"
proof -
  obtain nonce where "generate reading = Inr nonce"
    using generate_succeeds by blast
  then show ?thesis by (simp add: get_auth_headers_def Let_def)
qed

lemma py_eq_int_zero: "py_eq_int v 0 \<longleftrightarrow> v \<in> {JInt 0, JBool False, JFloat 0}"
  by (cases v) (auto simp: py_eq_int_def)

lemma post_with_provider:
  assumes "auth_provider self = Some provider"
  shows "\<exists>data hs. fst (post L X self url params headers w) = handle_outcome (requests_post X url data hs)"
proof -
  obtain hs after where
    "get_auth_headers L provider (clock X (clock_reads w)) (if truthy_dict params then params else Some []) =
       Inr (hs, after)"
    using get_auth_headers_succeeds by blast
  with assms show ?thesis
    by (auto simp: post_def Let_def)
qed

text \<open>
  Claim C5. Let a provider be configured and let the exchange answer the POST with a
  status outside 400 to 599 and a body that decodes to a dict. If the body's
  \<open>success\<close> equals 0 (the int 0, \<open>False\<close> or the float 0), \<open>post\<close> raises the
  ValueError whose text is \<open>API error: \<close> followed by the body's \<open>error\<close> field
  (\<open>Unknown error\<close> when absent). Otherwise it returns the value under \<open>return\<close>
  when the body has that key, and the whole body when it has not.
\<close>

theorem C5_envelope_unwrapped:
  assumes "auth_provider self = Some provider"
    and "\<forall>data hs. requests_post X url data hs = Response code (Json (JDict d))"
    and "code < 400 \<or> 600 \<le> code"
  shows "(dict_get d ''success'' JNone \<in> {JInt 0, JBool False, JFloat 0} \<longrightarrow>
            fst (post L X self url params headers w) =
              Inl (ValueError (API_error (dict_get d ''error'' (JStr ''Unknown error''))))) \<and>
         (dict_get d ''success'' JNone \<notin> {JInt 0, JBool False, JFloat 0} \<longrightarrow>
            fst (post L X self url params headers w) =
              (case map_of d ''return'' of Some r \<Rightarrow> Inr r | None \<Rightarrow> Inr (JDict d)))"
proof -
  from post_with_provider [OF assms(1)] assms(2)
  have "fst (post L X self url params headers w) = handle_outcome (Response code (Json (JDict d)))"
    by metis
  also have "\<dots> = (case unwrap_envelope (JDict d) of Inl e \<Rightarrow> Inl (reraise e) | Inr v \<Rightarrow> Inr v)"
    using assms(3) by (auto simp: handle_outcome_def)
  finally have p: "fst (post L X self url params headers w) =
      (case unwrap_envelope (JDict d) of Inl e \<Rightarrow> Inl (reraise e) | Inr v \<Rightarrow> Inr v)" .
  show ?thesis
  proof (intro conjI impI)
    assume "dict_get d ''success'' JNone \<in> {JInt 0, JBool False, JFloat 0}"
    then have "py_eq_int (dict_get d ''success'' JNone) 0" by (simp add: py_eq_int_zero)
    then show "fst (post L X self url params headers w) =
        Inl (ValueError (API_error (dict_get d ''error'' (JStr ''Unknown error''))))"
      by (simp add: p unwrap_envelope_def reraise_def)
  next
    assume "dict_get d ''success'' JNone \<notin> {JInt 0, JBool False, JFloat 0}"
    then have "\<not> py_eq_int (dict_get d ''success'' JNone) 0" by (simp add: py_eq_int_zero)
    then show "fst (post L X self url params headers w) =
        (case map_of d ''return'' of Some r \<Rightarrow> Inr r | None \<Rightarrow> Inr (JDict d))"
      by (simp add: p unwrap_envelope_def split: option.splits)
  qed
qed

theorem C5_envelope_unwrapped_witness:
  "fst (post stub_lib (stub_exchange (JDict [(''success'', JInt 0), (''error'', JStr ''bad nonce'')]))
          (http stub_api) ''tapi'' (Some [(''method'', JStr ''get_info'')]) None fresh_world) =
     Inl (ValueError (API_error (JStr ''bad nonce''))) \<and>
   fst (post stub_lib
          (stub_exchange (JDict [(''success'', JInt 1),
                                 (''return'', JDict [(''funds'', JDict [(''jpy'', JInt 5)])])]))
          (http stub_api) ''tapi'' (Some [(''method'', JStr ''get_info'')]) None fresh_world) =
     Inr (JDict [(''funds'', JDict [(''jpy'', JInt 5)])]) \<and>
   fst (post stub_lib (stub_exchange (JDict [(''success'', JInt 1), (''funds'', JDict [])]))
          (http stub_api) ''tapi'' (Some [(''method'', JStr ''get_info'')]) None fresh_world) =
     Inr (JDict [(''success'', JInt 1), (''funds'', JDict [])])"
proof -
  have h: "auth_provider (http stub_api) = Some \<lparr>api_key = ''key'', api_secret = ''secret''\<rparr>"
    by (simp add: stub_api_def ZaifApi_init_def truthy_str_def)
  have x: "\<forall>data hs. requests_post (stub_exchange (JDict d)) ''tapi'' data hs = Response 200 (Json (JDict d))" for d
    by (simp add: stub_exchange_def)
  have c: "(200::int) < 400 \<or> 600 \<le> (200::int)" by simp
  note t = C5_envelope_unwrapped [OF h x c, of _ stub_lib "Some [(''method'', JStr ''get_info'')]" None fresh_world]
  show ?thesis
    using t [of "[(''success'', JInt 0), (''error'', JStr ''bad nonce'')]"]
      t [of "[(''success'', JInt 1), (''return'', JDict [(''funds'', JDict [(''jpy'', JInt 5)])])]"]
      t [of "[(''success'', JInt 1), (''funds'', JDict [])]"]
    by (simp add: dict_get_def)
qed

subsection \<open>The time of a candle\<close>

text \<open>
  The equation of \<open>bitlen_nat\<close> unfolds for ever on a variable; it is used by name.
\<close>

declare bitlen_nat.simps [simp del]

lemma round_half_even_below_half:
  "of_int f \<le> q \<Longrightarrow> q < of_int f + 1 / 2 \<Longrightarrow> round_half_even q = f"
proof -
  assume a: "of_int f \<le> q" "q < of_int f + 1 / 2"
  then have "\<lfloor>q\<rfloor> = f" by (simp add: floor_eq_iff)
  with a show ?thesis by (simp add: round_half_even_def Let_def)
qed

lemma binary64_eval:
  assumes "x \<noteq> 0" "floor_log2 \<bar>x\<bar> = e" "- 1022 \<le> e"
    and "round_half_even (\<bar>x\<bar> / pow2 (e - 52)) = m"
  shows "binary64 x = (if x < 0 then - 1 else 1) * of_int m * pow2 (e - 52)"
  using assms by (simp add: binary64_def Let_def max_def)

lemma bitlen_nat_1: "bitlen_nat (Suc 0) = Suc 0"
  by (simp add: bitlen_nat.simps)

lemma bitlen_nat_1000: "bitlen_nat 1000 = 10"
  by (simp add: bitlen_nat.simps)

lemma int_truediv_1001: "int_truediv 1001 1000 = 2254051613498933 / 2251799813685248"
proof -
  have fl: "\<lfloor>1001 / 1000 :: rat\<rfloor> = 1" by (simp add: floor_eq_iff)
  have e: "floor_log2 \<bar>1001 / 1000\<bar> = 0"
    by (simp add: floor_log2_def fl bitlen_nat_1)
  have m: "round_half_even (\<bar>1001 / 1000\<bar> / pow2 (0 - 52)) = 4508103226997866"
    by (rule round_half_even_below_half) (simp_all add: pow2_def)
  have "binary64 (1001 / 1000) = 2254051613498933 / 2251799813685248"
    by (subst binary64_eval [OF _ e _ m]) (simp_all add: pow2_def)
  then show ?thesis by (simp add: int_truediv_def)
qed

lemma float_mul_int_1001: 
  "float_mul_int (2254051613498933 / 2251799813685248) 1000 = 8804889115230207 / 8796093022208"
proof -
  let ?x = "2254051613498933 / 2251799813685248 * 1000 :: rat"
  have fl: "\<lfloor>\<bar>?x\<bar>\<rfloor> = 1000" by (simp add: floor_eq_iff)
  have e: "floor_log2 \<bar>?x\<bar> = 9"
    unfolding floor_log2_def fl by (simp add: bitlen_nat_1000)
  have m: "round_half_even (\<bar>?x\<bar> / pow2 (9 - 52)) = 8804889115230207"
    by (rule round_half_even_below_half) (simp_all add: pow2_def)
  have "binary64 ?x = 8804889115230207 / 8796093022208"
    by (subst binary64_eval [OF _ e _ m]) (simp_all add: pow2_def)
  then show ?thesis by (simp add: float_mul_int_def)
qed

lemma millisecond_1001_truncated:
  "int_of_float (float_mul_int (int_truediv 1001 1000) 1000) = 1000"
proof -
  have "\<lfloor>8804889115230207 / 8796093022208 :: rat\<rfloor> = 1000" by (simp add: floor_eq_iff)
  then show ?thesis
    by (simp add: int_truediv_1001 float_mul_int_1001 int_of_float_def)
qed

text \<open>
  A time that is a whole number of seconds is not affected: an int below \<open>2^53\<close> is a
  double, so the division gives the seconds and the product gives the milliseconds back.
\<close>

lemma bitlen_nat_le: "n < 2 ^ k \<Longrightarrow> bitlen_nat n \<le> k"
proof (induction k arbitrary: n)
  case 0
  then show ?case by (simp add: bitlen_nat.simps)
next
  case (Suc k)
  show ?case
  proof (cases "n = 0")
    case True
    then show ?thesis by (simp add: bitlen_nat.simps)
  next
    case False
    from Suc.prems have "n div 2 < 2 ^ k" by simp
    then have "bitlen_nat (n div 2) \<le> k" by (rule Suc.IH)
    with False show ?thesis by (subst bitlen_nat.simps) simp
  qed
qed

lemma round_half_even_of_int: "round_half_even (of_int z) = z"
  by (simp add: round_half_even_def)

lemma binary64_of_int:
  assumes "\<bar>n\<bar> < 2 ^ 53"
  shows "binary64 (of_int n) = of_int n"
proof (cases "n = 0")
  case True
  then show ?thesis by (simp add: binary64_def)
next
  case False
  define a where "a = \<bar>n\<bar>"
  define b where "b = bitlen_nat (nat a)"
  have a1: "1 \<le> a" using False by (simp add: a_def)
  from assms have "nat a < 2 ^ 53" by (simp add: a_def nat_less_iff)
  then have b53: "b \<le> 53" unfolding b_def by (rule bitlen_nat_le)
  have b1: "1 \<le> b"
    using a1 unfolding b_def by (subst bitlen_nat.simps) simp
  have fl: "floor_log2 \<bar>of_int n\<bar> = int b - 1"
  proof -
    have "\<bar>of_int n :: rat\<bar> = of_int a" by (simp add: a_def)
    moreover have "(1::rat) \<le> of_int a" using a1 by simp
    ultimately show ?thesis by (simp add: floor_log2_def b_def)
  qed
  define k where "k = 53 - b"
  have u: "pow2 (int b - 1 - 52) = 1 / 2 ^ k"
  proof (cases "b = 53")
    case True
    then show ?thesis by (simp add: pow2_def k_def)
  next
    case False
    with b53 have "b < 53" by simp
    then have "nat (53 - int b) = 53 - b" by simp
    with \<open>b < 53\<close> show ?thesis by (simp add: pow2_def k_def)
  qed
  have q: "\<bar>of_int n :: rat\<bar> / (1 / 2 ^ k) = of_int (a * 2 ^ k)"
    by (simp add: a_def)
  have m: "round_half_even (\<bar>of_int n\<bar> / pow2 (int b - 1 - 52)) = a * 2 ^ k"
    unfolding u q by (rule round_half_even_of_int)
  have nz: "(of_int n :: rat) \<noteq> 0" using False by simp
  have lo: "- 1022 \<le> int b - 1" using b1 by simp
  have "binary64 (of_int n) =
          (if (of_int n :: rat) < 0 then - 1 else 1) * of_int (a * 2 ^ k) * pow2 (int b - 1 - 52)"
    by (rule binary64_eval [OF nz fl lo m])
  also have "\<dots> = (if n < 0 then - 1 else 1) * of_int a"
    unfolding u by simp
  also have "\<dots> = of_int n"
    by (simp add: a_def)
  finally show ?thesis .
qed

lemma int_of_float_of_int: "int_of_float (of_int n) = n"
  by (simp add: int_of_float_def)

lemma whole_seconds_come_back:
  assumes "\<bar>k * 1000\<bar> < 2 ^ 53"
  shows "int_truediv (k * 1000) 1000 = of_int k"
    and "int_of_float (float_mul_int (of_int k) 1000) = k * 1000"
proof -
  from assms have k: "\<bar>k\<bar> < 2 ^ 53" by (simp add: abs_mult)
  show "int_truediv (k * 1000) 1000 = of_int k"
    using binary64_of_int [OF k] by (simp add: int_truediv_def)
  have "float_mul_int (of_int k) 1000 = binary64 (of_int (k * 1000))"
    by (simp add: float_mul_int_def)
  also have "\<dots> = of_int (k * 1000)"
    using assms by (rule binary64_of_int)
  finally show "int_of_float (float_mul_int (of_int k) 1000) = k * 1000"
    by (simp only: int_of_float_of_int)
qed

text \<open>
  Claim C8 at the candle time 1001 ms. \<open>from_dict\<close> divides by 1000, which gives the
  double next to 1.001, a little below it. If the library prints that float and reads
  the same float back from the string, \<open>to_dict\<close> multiplies it by 1000, which gives
  the double just below 1001, and \<open>int\<close> truncates it: the candle comes back with the
  time 1000 ms.
\<close>

theorem C8_millisecond_1001_comes_back_as_1000:
  assumes "fromtimestamp_float_isoformat L (int_truediv 1001 1000) = Inr s"
    and "fromisoformat_timestamp L s = Inr (int_truediv 1001 1000)"
  shows "\<exists>r. PriceChartData_from_dict L
               (JDict [(''ohlc_data'',
                        JList [JDict [(''time'', JInt 1001), (''open'', JStr ''100''),
                                      (''high'', JStr ''110''), (''low'', JStr ''90''),
                                      (''close'', JStr ''105''), (''volume'', JStr ''2.5'')]]),
                       (''data_count'', JInt 1)]) cp tf sd ed = Inr r \<and>
             map CandlestickData.timestamp (PriceChartData.candlesticks r) = [s] \<and>
             PriceChartData_to_dict L r =
               Inr (JDict [(''ohlc_data'',
                            JList [JDict [(''time'', JInt 1000), (''open'', JStr ''100''),
                                          (''high'', JStr ''110''), (''low'', JStr ''90''),
                                          (''close'', JStr ''105''), (''volume'', JStr ''2.5'')]]),
                           (''data_count'', JInt 1)])"
  using assms millisecond_1001_truncated
  by (simp add: PriceChartData_from_dict_def Candlestick_of_def PriceChartData_to_dict_def
      Candlestick_to_dict_def Decimal_str_def py_eval)

theorem C8_millisecond_1001_comes_back_as_1000_witness:
  "fromtimestamp_float_isoformat stub_lib (int_truediv 1001 1000) = Inr ''1970-01-01T09:00:01.001000'' \<and>
   fromisoformat_timestamp stub_lib ''1970-01-01T09:00:01.001000'' = Inr (int_truediv 1001 1000) \<and>
   (\<exists>r. PriceChartData_from_dict stub_lib
               (JDict [(''ohlc_data'',
                        JList [JDict [(''time'', JInt 1001), (''open'', JStr ''100''),
                                      (''high'', JStr ''110''), (''low'', JStr ''90''),
                                      (''close'', JStr ''105''), (''volume'', JStr ''2.5'')]]),
                       (''data_count'', JInt 1)]) ''btc_jpy'' ''1'' ''a'' ''b'' = Inr r \<and>
             map CandlestickData.timestamp (PriceChartData.candlesticks r) = [''1970-01-01T09:00:01.001000''] \<and>
             PriceChartData_to_dict stub_lib r =
               Inr (JDict [(''ohlc_data'',
                            JList [JDict [(''time'', JInt 1000), (''open'', JStr ''100''),
                                          (''high'', JStr ''110''), (''low'', JStr ''90''),
                                          (''close'', JStr ''105''), (''volume'', JStr ''2.5'')]]),
                           (''data_count'', JInt 1)]))"
proof -
  have h1: "fromtimestamp_float_isoformat stub_lib (int_truediv 1001 1000) = Inr ''1970-01-01T09:00:01.001000''"
    by (simp add: stub_lib_def)
  have h2: "fromisoformat_timestamp stub_lib ''1970-01-01T09:00:01.001000'' = Inr (int_truediv 1001 1000)"
    by (simp add: stub_lib_def)
  from C8_millisecond_1001_comes_back_as_1000 [OF h1 h2, of "''btc_jpy''" "''1''" "''a''" "''b''"] h1 h2
  show ?thesis by simp
qed

end
